theory Spec2Isabelle
  imports Complex_Main
begin

section \<open>Moving-average crossover backtest: the embedding\<close>

text \<open>
  The Python sources \<^verbatim>\<open>utils/helpers.py\<close>, \<^verbatim>\<open>data/retrieval.py\<close> and
  \<^verbatim>\<open>strategies/basic.py\<close> are embedded as HOL functions. Python floats are
  values of \<^typ>\<open>real\<close>; a NaN cell of an indicator column is \<open>None\<close>. The simulators
  are given twice: in exact arithmetic, and with the rounding of every float operation
  as a parameter, for the statements that depend on it.
  Every exception the code can raise is a value of \<open>py_error\<close>, returned as \<open>Inl\<close>.
  The index of a frame (the trading dates) is strictly increasing without duplicates, so
  a label \<^verbatim>\<open>data.index[i]\<close> is identified with its position \<open>i\<close>, and
  \<^verbatim>\<open>.loc[data.index[i], c]\<close> with \<^verbatim>\<open>data[c].iloc[i]\<close>.
\<close>

subsection \<open>Python values and exceptions\<close>

datatype py_error = IndexError | ZeroDivisionError | TypeError

text \<open>
  What \<^verbatim>\<open>to_scalar\<close> may be handed: a number, a Series (its elements), or a
  DataFrame (its rows). The repository pins no pandas release, and \<^verbatim>\<open>float(v)\<close> calls
  the conversion method of the object's own class, so a Series or DataFrame carries the
  release its class comes from: up to pandas 2 that method converts a one-element Series,
  from pandas 3 on it converts no Series.
\<close>

datatype pandas = Pandas_2 | Pandas_3

datatype pd_value = Scalar real | Series pandas "real list" | DataFrame pandas "real list list"

definition and_then :: "py_error + 'a \<Rightarrow> ('a \<Rightarrow> py_error + 'b) \<Rightarrow> py_error + 'b" where
  "and_then m f = (case m of Inl e \<Rightarrow> Inl e | Inr x \<Rightarrow> f x)"

text \<open>\<^verbatim>\<open>float(v)\<close>: a number converts to itself; a one-element Series of pandas 2
  converts to its element; any other Series, and every DataFrame, raises TypeError.\<close>

fun py_float :: "pd_value \<Rightarrow> py_error + real" where
  "py_float (Scalar x) = Inr x"
| "py_float (Series Pandas_2 [x]) = Inr x"
| "py_float (Series v xs) = Inl TypeError"
| "py_float (DataFrame v rows) = Inl TypeError"

text \<open>
  \<^verbatim>\<open>
  def to_scalar(value):
      if isinstance(value, (pd.Series, pd.DataFrame)):
          if value.empty:
              return 0.0
          return float(value.iloc[0])
      return float(value)
  \<close>
  A DataFrame is empty when it has no row or no column; its \<^verbatim>\<open>iloc[0]\<close> is the first
  row, as a Series.
\<close>

fun to_scalar :: "pd_value \<Rightarrow> py_error + real" where
  "to_scalar (Series v xs) = (if xs = [] then Inr 0 else py_float (Scalar (hd xs)))"
| "to_scalar (DataFrame v rows) =
     (if rows = [] \<or> hd rows = [] then Inr 0 else py_float (Series v (hd rows)))"
| "to_scalar (Scalar x) = py_float (Scalar x)"

text \<open>\<^verbatim>\<open>col.iloc[i]\<close>: a negative position counts from the end, a position outside
  the column raises IndexError.\<close>

definition iloc :: "'a list \<Rightarrow> int \<Rightarrow> py_error + 'a" where
  "iloc col i =
     (if 0 \<le> i \<and> i < int (length col) then Inr (col ! nat i)
      else if i < 0 \<and> 0 \<le> int (length col) + i then Inr (col ! nat (int (length col) + i))
      else Inl IndexError)"

text \<open>\<^verbatim>\<open>to_scalar(col.iloc[i])\<close> on a column of numbers.\<close>

definition cell :: "real list \<Rightarrow> int \<Rightarrow> py_error + real" where
  "cell col i = and_then (iloc col i) (\<lambda>x. to_scalar (Scalar x))"


text \<open>Division of Python floats: a zero divisor raises.\<close>

definition py_div :: "real \<Rightarrow> real \<Rightarrow> py_error + real" where
  "py_div a b = (if b = 0 then Inl ZeroDivisionError else Inr (a / b))"

text \<open>A \<^verbatim>\<open>for i in range(...)\<close> loop whose body may raise: the first exception ends it.\<close>

fun for_each :: "(nat \<Rightarrow> 's \<Rightarrow> py_error + 's) \<Rightarrow> nat list \<Rightarrow> 's \<Rightarrow> py_error + 's" where
  "for_each body [] s = Inr s"
| "for_each body (i # is) s =
     (case body i s of Inl e \<Rightarrow> Inl e | Inr s' \<Rightarrow> for_each body is s')"

subsection \<open>The data frame\<close>

record frame =
  Close :: "real list"
  MA50 :: "real option list"
  MA200 :: "real option list"
  Signal :: "int list"
  BH_Value :: "real option list"
  MA_Value :: "real option list"

text \<open>\<^verbatim>\<open>len(data)\<close>.\<close>

definition nrows :: "frame \<Rightarrow> nat" where
  "nrows d = length (Close d)"

text \<open>Every column of a DataFrame has one entry per row; the simulators read the columns
  \<^verbatim>\<open>Close\<close> and \<^verbatim>\<open>Signal\<close>.\<close>

definition aligned :: "frame \<Rightarrow> bool" where
  "aligned d = (length (Signal d) = length (Close d))"

subsection \<open>Indicators: \<^verbatim>\<open>calculate_moving_averages\<close>\<close>

text \<open>
  \<^verbatim>\<open>col.rolling(window=w).mean()\<close> in exact arithmetic: the window at \<open>i\<close> holds the
  last \<open>w\<close> entries up to and including \<open>i\<close>, fewer near the start; with fewer than
  \<open>w\<close> observations (\<^verbatim>\<open>min_periods\<close> defaults to the window) the result is NaN. The
  routine of pandas itself works on floats and rounds; it is taken as a parameter where
  a statement is about the code.
\<close>

definition rolling_mean :: "nat \<Rightarrow> real list \<Rightarrow> real option list" where
  "rolling_mean w xs =
     map (\<lambda>i. let win = drop (Suc i - w) (take (Suc i) xs)
              in if length win < w then None else Some (sum_list win / real (length win)))
       [0..<length xs]"

text \<open>
  \<^verbatim>\<open>
  data["MA50"] = data["Close"].rolling(window=50).mean()
  data["MA200"] = data["Close"].rolling(window=200).mean()
  return data
  \<close>
  The function assigns the two columns on the frame object it is handed and returns that
  object. Frame objects live in a heap, addressed by references; the function takes the
  reference \<open>data\<close> and the heap, and returns the reference and the heap after the two
  assignments. The rolling mean is a routine of pandas, not of this repository: it is the
  parameter \<open>rolling\<close>, and \<open>rolling_mean\<close> above is that routine in exact arithmetic.
\<close>

type_synonym heap = "nat \<Rightarrow> frame"

definition calculate_moving_averages ::
  "(nat \<Rightarrow> real list \<Rightarrow> real option list) \<Rightarrow> nat \<Rightarrow> heap \<Rightarrow> nat \<times> heap" where
  "calculate_moving_averages rolling data h =
     (let h1 = h(data := (h data)\<lparr>MA50 := rolling 50 (Close (h data))\<rparr>);
          h2 = h1(data := (h1 data)\<lparr>MA200 := rolling 200 (Close (h1 data))\<rparr>)
      in (data, h2))"

subsection \<open>Signals: \<^verbatim>\<open>generate_signals\<close>\<close>

text \<open>Comparisons of float cells: any comparison with NaN is false.\<close>

fun nan_gt :: "real option \<Rightarrow> real option \<Rightarrow> bool" where
  "nan_gt (Some a) (Some b) = (a > b)"
| "nan_gt _ _ = False"

fun nan_lt :: "real option \<Rightarrow> real option \<Rightarrow> bool" where
  "nan_lt (Some a) (Some b) = (a < b)"
| "nan_lt _ _ = False"

fun nan_le :: "real option \<Rightarrow> real option \<Rightarrow> bool" where
  "nan_le (Some a) (Some b) = (a \<le> b)"
| "nan_le _ _ = False"

fun nan_ge :: "real option \<Rightarrow> real option \<Rightarrow> bool" where
  "nan_ge (Some a) (Some b) = (a \<ge> b)"
| "nan_ge _ _ = False"

text \<open>\<^verbatim>\<open>col.shift(1)\<close>: every entry moves one row down, the first row becomes NaN.\<close>

definition shift1 :: "real option list \<Rightarrow> real option list" where
  "shift1 col = take (length col) (None # col)"

text \<open>Element-wise comparison of two columns, \<^verbatim>\<open>&\<close> of two masks, and
  \<^verbatim>\<open>data.loc[mask, c] = v\<close>.\<close>

definition compare_cols ::
  "(real option \<Rightarrow> real option \<Rightarrow> bool) \<Rightarrow> real option list \<Rightarrow> real option list \<Rightarrow> bool list" where
  "compare_cols f xs ys = map (\<lambda>(x, y). f x y) (zip xs ys)"

definition mask_and :: "bool list \<Rightarrow> bool list \<Rightarrow> bool list" where
  "mask_and ps qs = map (\<lambda>(p, q). p \<and> q) (zip ps qs)"

definition loc_assign :: "bool list \<Rightarrow> 'a \<Rightarrow> 'a list \<Rightarrow> 'a list" where
  "loc_assign sel v col = map (\<lambda>(m, c). if m then v else c) (zip sel col)"

text \<open>
  \<^verbatim>\<open>
  data["Signal"] = 0
  data.loc[(data["MA50"] > data["MA200"])
           & (data["MA50"].shift(1) <= data["MA200"].shift(1)), "Signal"] = 1
  data.loc[(data["MA50"] < data["MA200"])
           & (data["MA50"].shift(1) >= data["MA200"].shift(1)), "Signal"] = -1
  return data
  \<close>
\<close>

definition generate_signals :: "frame \<Rightarrow> frame" where
  "generate_signals d =
     (let d0 = d\<lparr>Signal := replicate (nrows d) 0\<rparr>;
          d1 = d0\<lparr>Signal :=
                 loc_assign
                   (mask_and (compare_cols nan_gt (MA50 d0) (MA200 d0))
                             (compare_cols nan_le (shift1 (MA50 d0)) (shift1 (MA200 d0))))
                   1 (Signal d0)\<rparr>
      in d1\<lparr>Signal :=
              loc_assign
                (mask_and (compare_cols nan_lt (MA50 d1) (MA200 d1))
                          (compare_cols nan_ge (shift1 (MA50 d1)) (shift1 (MA200 d1))))
                (- 1) (Signal d1)\<rparr>)"

subsection \<open>Buy and hold: \<^verbatim>\<open>buy_and_hold\<close>\<close>

record bh_result =
  bh_initial_investment :: real
  bh_final_value :: real
  bh_return_percentage :: real
  bh_shares :: real

text \<open>
  \<^verbatim>\<open>
  initial_investment = 10000.0
  shares = initial_investment / to_scalar(data["Close"].iloc[200])
  final_value = shares * to_scalar(data["Close"].iloc[-1])
  returns = (final_value - initial_investment) / initial_investment * 100
  \<close>
\<close>

definition buy_and_hold :: "frame \<Rightarrow> py_error + bh_result" where
  "buy_and_hold d =
     and_then (cell (Close d) 200) (\<lambda>p200.
     and_then (py_div 10000 p200) (\<lambda>sh.
     and_then (cell (Close d) (- 1)) (\<lambda>plast.
       Inr \<lparr>bh_initial_investment = 10000,
            bh_final_value = sh * plast,
            bh_return_percentage = (sh * plast - 10000) / 10000 * 100,
            bh_shares = sh\<rparr>)))"

subsection \<open>Crossover strategy: \<^verbatim>\<open>ma_crossover_strategy\<close>\<close>

datatype action = BUY | SELL

record transaction =
  tx_date :: nat
  tx_action :: action
  tx_price :: real
  tx_shares :: real
  tx_value :: real

record position =
  cash :: real
  shares :: real
  in_market :: bool
  transactions :: "transaction list"

definition initial_position :: position where
  "initial_position = \<lparr>cash = 10000, shares = 0, in_market = False, transactions = []\<rparr>"

text \<open>
  The body of \<^verbatim>\<open>for i in range(200, len(data))\<close>:
  \<^verbatim>\<open>
  date = data.index[i]
  price = to_scalar(data["Close"].iloc[i])
  signal = to_scalar(data["Signal"].iloc[i])
  if signal == 1 and not in_market:
      shares = cash / price; cash = 0.0; in_market = True
      transactions.append({date, "BUY", price, shares, shares * price})
  elif signal == -1 and in_market:
      cash = shares * price; shares = 0.0; in_market = False
      transactions.append({date, "SELL", price, 0, cash})
  \<close>
\<close>

definition crossover_step :: "frame \<Rightarrow> nat \<Rightarrow> position \<Rightarrow> py_error + position" where
  "crossover_step d i s =
     and_then (cell (Close d) (int i)) (\<lambda>price.
     and_then (cell (map real_of_int (Signal d)) (int i)) (\<lambda>sig.
       if sig = 1 \<and> \<not> in_market s then
         and_then (py_div (cash s) price) (\<lambda>sh.
           Inr \<lparr>cash = 0, shares = sh, in_market = True,
                transactions = transactions s @
                  [\<lparr>tx_date = i, tx_action = BUY, tx_price = price, tx_shares = sh,
                    tx_value = sh * price\<rparr>]\<rparr>)
       else if sig = - 1 \<and> in_market s then
         Inr \<lparr>cash = shares s * price, shares = 0, in_market = False,
              transactions = transactions s @
                [\<lparr>tx_date = i, tx_action = SELL, tx_price = price, tx_shares = 0,
                  tx_value = shares s * price\<rparr>]\<rparr>
       else Inr s))"

definition crossover_loop :: "frame \<Rightarrow> nat \<Rightarrow> py_error + position" where
  "crossover_loop d m = for_each (crossover_step d) [200..<m] initial_position"

record ma_result =
  ma_initial_investment :: real
  ma_final_value :: real
  ma_return_percentage :: real
  ma_transactions :: "transaction list"

text \<open>
  After the loop:
  \<^verbatim>\<open>
  final_price = to_scalar(data["Close"].iloc[-1])
  final_value = final_cash if final_cash > 0 else final_shares * final_price
  returns = (final_value - initial_investment) / initial_investment * 100
  \<close>
\<close>

definition final_value_of :: "position \<Rightarrow> real \<Rightarrow> real" where
  "final_value_of s final_price = (if cash s > 0 then cash s else shares s * final_price)"

definition ma_crossover_strategy :: "frame \<Rightarrow> py_error + ma_result" where
  "ma_crossover_strategy d =
     and_then (crossover_loop d (nrows d)) (\<lambda>s.
     and_then (cell (Close d) (- 1)) (\<lambda>final_price.
       Inr \<lparr>ma_initial_investment = 10000,
            ma_final_value = final_value_of s final_price,
            ma_return_percentage = (final_value_of s final_price - 10000) / 10000 * 100,
            ma_transactions = transactions s\<rparr>))"

subsection \<open>Equity curves: \<^verbatim>\<open>prepare_strategy_data\<close>\<close>

text \<open>
  \<^verbatim>\<open>
  bh_values = []
  for i in range(len(sp500_data)):
      if i < 200: bh_values.append(None)
      else:
          price = to_scalar(sp500_data["Close"].iloc[i])
          bh_values.append(bh_shares * price)
  \<close>
\<close>

definition bh_step :: "frame \<Rightarrow> real \<Rightarrow> nat \<Rightarrow> real option list \<Rightarrow> py_error + real option list" where
  "bh_step d bh_sh i bh_values =
     (if i < 200 then Inr (bh_values @ [None])
      else and_then (cell (Close d) (int i)) (\<lambda>price. Inr (bh_values @ [Some (bh_sh * price)])))"

record equity_state =
  current_value :: real
  eq_in_market :: bool
  eq_shares :: real
  ma_values :: "real option list"

text \<open>
  The body of \<^verbatim>\<open>for i in range(201, len(sp500_data))\<close>:
  \<^verbatim>\<open>
  prev_signal = to_scalar(sp500_data.loc[prev_idx, "Signal"])
  prev_close = to_scalar(sp500_data.loc[prev_idx, "Close"])
  curr_close = to_scalar(sp500_data.loc[curr_idx, "Close"])
  if prev_signal == 1 and not in_market:
      shares = current_value / prev_close; in_market = True
  elif prev_signal == -1 and in_market:
      current_value = shares * prev_close; shares = 0; in_market = False
  if in_market: sp500_data.loc[curr_idx, "MA_Value"] = shares * curr_close
  else:         sp500_data.loc[curr_idx, "MA_Value"] = current_value
  \<close>
\<close>

definition equity_trade :: "real \<Rightarrow> real \<Rightarrow> equity_state \<Rightarrow> py_error + equity_state" where
  "equity_trade prev_signal prev_close s =
     (if prev_signal = 1 \<and> \<not> eq_in_market s then
        and_then (py_div (current_value s) prev_close) (\<lambda>sh.
          Inr (s\<lparr>eq_shares := sh, eq_in_market := True\<rparr>))
      else if prev_signal = - 1 \<and> eq_in_market s then
        Inr (s\<lparr>current_value := eq_shares s * prev_close, eq_shares := 0,
               eq_in_market := False\<rparr>)
      else Inr s)"

definition equity_step :: "frame \<Rightarrow> nat \<Rightarrow> equity_state \<Rightarrow> py_error + equity_state" where
  "equity_step d i s =
     and_then (cell (map real_of_int (Signal d)) (int i - 1)) (\<lambda>prev_signal.
     and_then (cell (Close d) (int i - 1)) (\<lambda>prev_close.
     and_then (cell (Close d) (int i)) (\<lambda>curr_close.
     and_then (equity_trade prev_signal prev_close s) (\<lambda>s'.
       Inr (s'\<lparr>ma_values := (ma_values s')
              [i := Some (if eq_in_market s' then eq_shares s' * curr_close
                          else current_value s')]\<rparr>)))))"

definition initial_equity :: "nat \<Rightarrow> equity_state" where
  "initial_equity n =
     \<lparr>current_value = 10000, eq_in_market = False, eq_shares = 0,
      ma_values = (replicate n None)[200 := Some 10000]\<rparr>"

definition equity_loop :: "frame \<Rightarrow> nat \<Rightarrow> py_error + equity_state" where
  "equity_loop d m = for_each (equity_step d) [201..<m] (initial_equity (nrows d))"

text \<open>
  Between the two loops the column \<^verbatim>\<open>MA_Value\<close> is created as all \<^verbatim>\<open>None\<close> and
  \<^verbatim>\<open>sp500_data.loc[sp500_data.index[200], "MA_Value"] = 10000.0\<close> sets the starting
  value; \<^verbatim>\<open>sp500_data.index[200]\<close> raises IndexError on a frame of at most 200 rows.
\<close>

definition prepare_strategy_data :: "frame \<Rightarrow> real \<Rightarrow> py_error + frame" where
  "prepare_strategy_data d bh_sh =
     and_then (for_each (bh_step d bh_sh) [0..<nrows d] []) (\<lambda>bh_values.
     and_then (iloc [0..<nrows d] 200) (\<lambda>start.
     and_then (equity_loop d (nrows d)) (\<lambda>s.
       Inr (d\<lparr>BH_Value := bh_values, MA_Value := ma_values s\<rparr>))))"

subsection \<open>Float arithmetic made explicit\<close>

text \<open>
  Python floats are IEEE 754 binary64 numbers: the result of a division or a
  multiplication is the exact result rounded to 53 significant bits, to nearest, ties to
  even. \<open>double_round\<close> is that rounding on the reals, with the gradual underflow of
  binary64 (no exponent below -1022); overflow to infinity is not modelled.
  The exponent of \<open>x > 0\<close> is the \<open>e\<close> with \<open>2^e \<le> x < 2^(e+1)\<close>, read off the bit
  length of \<open>\<lfloor>x\<rfloor>\<close> for \<open>x \<ge> 1\<close> and of \<open>\<lceil>1/x\<rceil> - 1\<close> below 1.
\<close>

definition pow2 :: "int \<Rightarrow> real" where
  "pow2 e = (if 0 \<le> e then 2 ^ nat e else 1 / 2 ^ nat (- e))"

fun bit_length :: "nat \<Rightarrow> nat" where
  "bit_length n = (if n = 0 then 0 else Suc (bit_length (n div 2)))"

declare bit_length.simps [simp del]

definition binary_exponent :: "real \<Rightarrow> int" where
  "binary_exponent x =
     (if 1 \<le> x then int (bit_length (nat \<lfloor>x\<rfloor>)) - 1
      else - int (bit_length (nat (\<lceil>1 / x\<rceil> - 1))))"

definition round_half_even :: "real \<Rightarrow> int" where
  "round_half_even r =
     (if r - of_int \<lfloor>r\<rfloor> < 1 / 2 then \<lfloor>r\<rfloor>
      else if 1 / 2 < r - of_int \<lfloor>r\<rfloor> then \<lfloor>r\<rfloor> + 1
      else if even \<lfloor>r\<rfloor> then \<lfloor>r\<rfloor> else \<lfloor>r\<rfloor> + 1)"

definition double_round :: "real \<Rightarrow> real" where
  "double_round x =
     (if x = 0 then 0
      else sgn x * (of_int (round_half_even
                      (\<bar>x\<bar> / pow2 (max (binary_exponent \<bar>x\<bar>) (- 1022) - 52)))
                    * pow2 (max (binary_exponent \<bar>x\<bar>) (- 1022) - 52)))"

text \<open>
  The two simulators once more, with the rounding \<open>rnd\<close> applied to the result of every
  float operation: \<open>double_round\<close> for the code as it runs, the identity for exact
  arithmetic, where they are the functions above.
\<close>

definition py_div_fl :: "(real \<Rightarrow> real) \<Rightarrow> real \<Rightarrow> real \<Rightarrow> py_error + real" where
  "py_div_fl rnd a b = (if b = 0 then Inl ZeroDivisionError else Inr (rnd (a / b)))"

definition crossover_step_fl ::
  "(real \<Rightarrow> real) \<Rightarrow> frame \<Rightarrow> nat \<Rightarrow> position \<Rightarrow> py_error + position" where
  "crossover_step_fl rnd d i s =
     and_then (cell (Close d) (int i)) (\<lambda>price.
     and_then (cell (map real_of_int (Signal d)) (int i)) (\<lambda>sig.
       if sig = 1 \<and> \<not> in_market s then
         and_then (py_div_fl rnd (cash s) price) (\<lambda>sh.
           Inr \<lparr>cash = 0, shares = sh, in_market = True,
                transactions = transactions s @
                  [\<lparr>tx_date = i, tx_action = BUY, tx_price = price, tx_shares = sh,
                    tx_value = rnd (sh * price)\<rparr>]\<rparr>)
       else if sig = - 1 \<and> in_market s then
         Inr \<lparr>cash = rnd (shares s * price), shares = 0, in_market = False,
              transactions = transactions s @
                [\<lparr>tx_date = i, tx_action = SELL, tx_price = price, tx_shares = 0,
                  tx_value = rnd (shares s * price)\<rparr>]\<rparr>
       else Inr s))"

definition crossover_loop_fl :: "(real \<Rightarrow> real) \<Rightarrow> frame \<Rightarrow> nat \<Rightarrow> py_error + position" where
  "crossover_loop_fl rnd d m = for_each (crossover_step_fl rnd d) [200..<m] initial_position"

definition final_value_of_fl :: "(real \<Rightarrow> real) \<Rightarrow> position \<Rightarrow> real \<Rightarrow> real" where
  "final_value_of_fl rnd s final_price =
     (if cash s > 0 then cash s else rnd (shares s * final_price))"

definition ma_crossover_strategy_fl :: "(real \<Rightarrow> real) \<Rightarrow> frame \<Rightarrow> py_error + ma_result" where
  "ma_crossover_strategy_fl rnd d =
     and_then (crossover_loop_fl rnd d (nrows d)) (\<lambda>s.
     and_then (cell (Close d) (- 1)) (\<lambda>final_price.
       Inr \<lparr>ma_initial_investment = 10000,
            ma_final_value = final_value_of_fl rnd s final_price,
            ma_return_percentage =
              rnd (rnd (rnd (final_value_of_fl rnd s final_price - 10000) / 10000) * 100),
            ma_transactions = transactions s\<rparr>))"

definition bh_step_fl ::
  "(real \<Rightarrow> real) \<Rightarrow> frame \<Rightarrow> real \<Rightarrow> nat \<Rightarrow> real option list \<Rightarrow> py_error + real option list" where
  "bh_step_fl rnd d bh_sh i bh_values =
     (if i < 200 then Inr (bh_values @ [None])
      else and_then (cell (Close d) (int i))
             (\<lambda>price. Inr (bh_values @ [Some (rnd (bh_sh * price))])))"

definition equity_trade_fl ::
  "(real \<Rightarrow> real) \<Rightarrow> real \<Rightarrow> real \<Rightarrow> equity_state \<Rightarrow> py_error + equity_state" where
  "equity_trade_fl rnd prev_signal prev_close s =
     (if prev_signal = 1 \<and> \<not> eq_in_market s then
        and_then (py_div_fl rnd (current_value s) prev_close) (\<lambda>sh.
          Inr (s\<lparr>eq_shares := sh, eq_in_market := True\<rparr>))
      else if prev_signal = - 1 \<and> eq_in_market s then
        Inr (s\<lparr>current_value := rnd (eq_shares s * prev_close), eq_shares := 0,
               eq_in_market := False\<rparr>)
      else Inr s)"

definition equity_step_fl ::
  "(real \<Rightarrow> real) \<Rightarrow> frame \<Rightarrow> nat \<Rightarrow> equity_state \<Rightarrow> py_error + equity_state" where
  "equity_step_fl rnd d i s =
     and_then (cell (map real_of_int (Signal d)) (int i - 1)) (\<lambda>prev_signal.
     and_then (cell (Close d) (int i - 1)) (\<lambda>prev_close.
     and_then (cell (Close d) (int i)) (\<lambda>curr_close.
     and_then (equity_trade_fl rnd prev_signal prev_close s) (\<lambda>s'.
       Inr (s'\<lparr>ma_values := (ma_values s')
              [i := Some (if eq_in_market s' then rnd (eq_shares s' * curr_close)
                          else current_value s')]\<rparr>)))))"

definition equity_loop_fl :: "(real \<Rightarrow> real) \<Rightarrow> frame \<Rightarrow> nat \<Rightarrow> py_error + equity_state" where
  "equity_loop_fl rnd d m = for_each (equity_step_fl rnd d) [201..<m] (initial_equity (nrows d))"

definition prepare_strategy_data_fl ::
  "(real \<Rightarrow> real) \<Rightarrow> frame \<Rightarrow> real \<Rightarrow> py_error + frame" where
  "prepare_strategy_data_fl rnd d bh_sh =
     and_then (for_each (bh_step_fl rnd d bh_sh) [0..<nrows d] []) (\<lambda>bh_values.
     and_then (iloc [0..<nrows d] 200) (\<lambda>start.
     and_then (equity_loop_fl rnd d (nrows d)) (\<lambda>s.
       Inr (d\<lparr>BH_Value := bh_values, MA_Value := ma_values s\<rparr>))))"

text \<open>A rounding that keeps zero and the sign of non-negative numbers, as rounding to
  nearest does.\<close>

definition sign_keeping :: "(real \<Rightarrow> real) \<Rightarrow> bool" where
  "sign_keeping rnd = (rnd 0 = 0 \<and> (\<forall>x\<ge>0. 0 \<le> rnd x))"

text \<open>The state of the rounded equity loop after index \<open>m\<close> agrees with the state of the
  rounded crossover loop before index \<open>m\<close>, whose equity at the close of \<open>m\<close> is the
  entry \<open>m\<close> of the column \<^verbatim>\<open>MA_Value\<close>.\<close>

definition follows :: "(real \<Rightarrow> real) \<Rightarrow> frame \<Rightarrow> nat \<Rightarrow> position \<Rightarrow> equity_state \<Rightarrow> bool" where
  "follows rnd d m s e =
     (eq_in_market e = in_market s \<and> eq_shares e = shares s
      \<and> (in_market s \<or> current_value e = cash s)
      \<and> (if in_market s then cash s = 0 else shares s = 0)
      \<and> 0 \<le> cash s \<and> 0 \<le> shares s
      \<and> length (ma_values e) = nrows d
      \<and> ma_values e ! m = Some (if in_market s then rnd (shares s * Close d ! m) else cash s))"

subsection \<open>The specification's own definitions\<close>


text \<open>
  The specification's crossover simulator: at index \<open>i\<close> it inspects the signal of
  \<open>i - 1\<close> and trades at the close of \<open>i - 1\<close>, logging a transaction dated \<open>i - 1\<close>;
  it starts flat with the full capital and scans the indices it is given in order.
\<close>

definition spec_act :: "frame \<Rightarrow> nat \<Rightarrow> position \<Rightarrow> position" where
  "spec_act d i s =
     (if Signal d ! (i - 1) = 1 \<and> \<not> in_market s then
        \<lparr>cash = 0, shares = cash s / Close d ! (i - 1), in_market = True,
         transactions = transactions s @
           [\<lparr>tx_date = i - 1, tx_action = BUY, tx_price = Close d ! (i - 1),
             tx_shares = cash s / Close d ! (i - 1),
             tx_value = cash s / Close d ! (i - 1) * Close d ! (i - 1)\<rparr>]\<rparr>
      else if Signal d ! (i - 1) = - 1 \<and> in_market s then
        \<lparr>cash = shares s * Close d ! (i - 1), shares = 0, in_market = False,
         transactions = transactions s @
           [\<lparr>tx_date = i - 1, tx_action = SELL, tx_price = Close d ! (i - 1),
             tx_shares = 0, tx_value = shares s * Close d ! (i - 1)\<rparr>]\<rparr>
      else s)"

definition spec_scan :: "frame \<Rightarrow> nat list \<Rightarrow> position" where
  "spec_scan d is = foldl (\<lambda>s i. spec_act d i s) initial_position is"

text \<open>Equity of a position marked at a price: shares times the price when in the
  market, the cash otherwise.\<close>

definition equity :: "position \<Rightarrow> real \<Rightarrow> real" where
  "equity s p = (if in_market s then shares s * p else cash s)"

text \<open>The invariant of the position: exactly one of cash and shares is active.\<close>

definition one_active :: "position \<Rightarrow> bool" where
  "one_active s = (if in_market s then cash s = 0 \<and> shares s > 0 else shares s = 0 \<and> cash s > 0)"

text \<open>Action labels alternate, starting with the given one.\<close>

fun alternates :: "action \<Rightarrow> action list \<Rightarrow> bool" where
  "alternates a [] = True"
| "alternates a (x # xs) = (x = a \<and> alternates (if a = BUY then SELL else BUY) xs)"

subsection \<open>Invariants used in the proofs\<close>

text \<open>The log alternates from Buy, and the position is in the market exactly after an odd
  number of transactions.\<close>

definition log_ok :: "position \<Rightarrow> bool" where
  "log_ok s = (alternates BUY (map tx_action (transactions s))
               \<and> in_market s = odd (length (transactions s)))"

text \<open>The state of the equity loop after index \<open>m\<close> agrees with the specification's scan
  through \<open>m\<close>, and the column \<^verbatim>\<open>MA_Value\<close> holds, from 200 to \<open>m\<close>, the equity of the
  scan marked at the day's close.\<close>

definition tracks :: "frame \<Rightarrow> nat \<Rightarrow> equity_state \<Rightarrow> bool" where
  "tracks d m e =
     (let s = spec_scan d [201..<Suc m] in
      eq_in_market e = in_market s \<and> eq_shares e = shares s
      \<and> (in_market s \<or> current_value e = cash s)
      \<and> length (ma_values e) = nrows d
      \<and> (\<forall>j<nrows d. ma_values e ! j =
            (if 200 \<le> j \<and> j \<le> m then Some (equity (spec_scan d [201..<Suc j]) (Close d ! j))
             else None)))"

subsection \<open>The pipeline of \<^verbatim>\<open>main\<close> and example frames\<close>

text \<open>A frame as downloaded: only the closes are filled in, the other columns are created
  by the later stages.\<close>

definition price_frame :: "real list \<Rightarrow> frame" where
  "price_frame closes =
     \<lparr>Close = closes, MA50 = [], MA200 = [], Signal = [], BH_Value = [], MA_Value = []\<rparr>"

text \<open>
  \<^verbatim>\<open>
  sp500_data = calculate_moving_averages(sp500_data)
  sp500_data = generate_signals(sp500_data)
  \<close>
  on a heap that holds the downloaded frame, with the rolling mean in exact arithmetic.
\<close>

definition pipeline :: "real list \<Rightarrow> frame" where
  "pipeline closes =
     (case calculate_moving_averages rolling_mean 0 (\<lambda>r. price_frame closes) of
        (sp500_data, h) \<Rightarrow> generate_signals (h sp500_data))"

text \<open>200 closes of 1, then a close of 2: the averages cross upwards at the last index.\<close>

definition crossing_frame :: frame where
  "crossing_frame = pipeline (replicate 200 1 @ [2])"

text \<open>200 closes of 1, then a close of 139: an upward cross at the last index, at a
  price by which 10000 does not divide evenly in binary.\<close>

definition rounding_frame :: frame where
  "rounding_frame = pipeline (replicate 200 1 @ [139])"

text \<open>200 closes of -2, then a close of -1: an upward cross at a negative close.\<close>

definition negative_frame :: frame where
  "negative_frame = pipeline (replicate 200 (- 2) @ [- 1])"

text \<open>Exactly 200 rows, and three rows.\<close>

definition short_frame :: frame where
  "short_frame = pipeline (replicate 200 1)"

definition tiny_frame :: frame where
  "tiny_frame = pipeline [1, 2, 3]"

text \<open>A frame with a Buy signal at index 200 and a Sell signal at index 201, and one with
  a Buy signal at a close of zero.\<close>

definition round_trip_frame :: frame where
  "round_trip_frame = \<lparr>Close = replicate 200 1 @ [2, 4], MA50 = replicate 202 None, MA200 = replicate 202 None,
     Signal = replicate 200 0 @ [1, - 1], BH_Value = [], MA_Value = []\<rparr>"

definition zero_frame :: frame where
  "zero_frame = \<lparr>Close = replicate 200 1 @ [0], MA50 = replicate 201 None,
     MA200 = replicate 201 None, Signal = replicate 200 0 @ [1], BH_Value = [], MA_Value = []\<rparr>"

section \<open>Properties\<close>

subsection \<open>\<^verbatim>\<open>to_scalar\<close>\<close>

lemma cell_in_range [simp]: "i < length col \<Longrightarrow> cell col (int i) = Inr (col ! i)"
  by (simp add: cell_def iloc_def and_then_def)

lemma cell_last [simp]: "col \<noteq> [] \<Longrightarrow> cell col (- 1) = Inr (last col)"
  by (cases col rule: rev_cases) (simp_all add: cell_def iloc_def and_then_def)

lemma cell_out_of_range [simp]: "length col \<le> i \<Longrightarrow> cell col (int i) = Inl IndexError"
  by (simp add: cell_def iloc_def and_then_def)

lemma cell_empty [simp]: "cell [] i = Inl IndexError"
  by (simp add: cell_def iloc_def and_then_def)

lemma and_then_Inr [simp]: "and_then (Inr x) f = f x"
  by (simp add: and_then_def)

lemma and_then_Inl [simp]: "and_then (Inl e) f = Inl e"
  by (simp add: and_then_def)






subsection \<open>Loops and the specification's scan\<close>

lemma for_each_append:
  "for_each body (xs @ ys) s = and_then (for_each body xs s) (for_each body ys)"
  by (induction xs arbitrary: s) (auto split: sum.splits)

lemma for_each_single: "for_each body [i] = body i"
  by (rule ext) (simp split: sum.split)

lemma spec_scan_snoc: "spec_scan d (is @ [i]) = spec_act d i (spec_scan d is)"
  by (simp add: spec_scan_def)

lemma spec_scan_Nil: "spec_scan d [] = initial_position"
  by (simp add: spec_scan_def)

lemma cell_numeral:
  "numeral k < length col \<Longrightarrow> cell col (numeral k) = Inr (col ! numeral k)"
  using cell_in_range [of "numeral k" col] by simp

lemma cell_numeral_short:
  "length col \<le> numeral k \<Longrightarrow> cell col (numeral k) = Inl IndexError"
  using cell_out_of_range [of col "numeral k"] by simp

lemma iloc_numeral:
  "iloc col (numeral k) = (if numeral k < length col then Inr (col ! numeral k) else Inl IndexError)"
proof -
  have "iloc col (int (numeral k)) = (if numeral k < length col then Inr (col ! numeral k) else Inl IndexError)"
    unfolding iloc_def by (simp del: of_nat_numeral)
  then show ?thesis by simp
qed

lemma crossover_step_spec:
  assumes "aligned d" "i < nrows d" "Close d ! i \<noteq> 0"
  shows "crossover_step d i s = Inr (spec_act d (Suc i) s)"
  using assms by (simp add: crossover_step_def spec_act_def aligned_def nrows_def py_div_def)

lemma crossover_loop_Suc:
  "200 \<le> m \<Longrightarrow> crossover_loop d (Suc m) = and_then (crossover_loop d m) (crossover_step d m)"
  by (simp add: crossover_loop_def for_each_append for_each_single)

lemma crossover_loop_spec:
  assumes "aligned d" "\<forall>i<nrows d. Close d ! i \<noteq> 0" "m \<le> nrows d"
  shows "crossover_loop d m = Inr (spec_scan d [201..<Suc m])"
  using assms(3)
proof (induction m)
  case 0
  show ?case by (simp add: crossover_loop_def spec_scan_Nil)
next
  case (Suc m)
  show ?case
  proof (cases "200 \<le> m")
    case True
    have "crossover_loop d m = Inr (spec_scan d [201..<Suc m])" using Suc by simp
    moreover have "crossover_step d m s = Inr (spec_act d (Suc m) s)" for s
      using assms(1,2) Suc.prems by (intro crossover_step_spec) auto
    moreover have "[201..<Suc (Suc m)] = [201..<Suc m] @ [Suc m]" using True by simp
    ultimately show ?thesis using True
      by (simp add: crossover_loop_Suc spec_scan_snoc)
  next
    case False
    then show ?thesis by (simp add: crossover_loop_def spec_scan_Nil)
  qed
qed

lemma crossover_loop_short: "m \<le> 200 \<Longrightarrow> crossover_loop d m = Inr initial_position"
  by (simp add: crossover_loop_def)

lemma closes_positive_nth:
  "\<forall>c\<in>set (Close d). 0 < c \<Longrightarrow> i < nrows d \<Longrightarrow> 0 < Close d ! i"
  by (simp add: nrows_def)

subsection \<open>The position invariant\<close>

lemma spec_act_one_active:
  "one_active s \<Longrightarrow> 0 < Close d ! (i - 1) \<Longrightarrow> one_active (spec_act d i s)"
  by (auto simp: one_active_def spec_act_def split: if_splits)

lemma spec_scan_one_active:
  "\<forall>i\<in>set is. 0 < Close d ! (i - 1) \<Longrightarrow> one_active (spec_scan d is)"
proof (induction "is" rule: rev_induct)
  case Nil
  show ?case by (simp add: spec_scan_Nil one_active_def initial_position_def)
next
  case (snoc i "is")
  then show ?case by (simp add: spec_scan_snoc spec_act_one_active)
qed

lemma scan_one_active:
  assumes "\<forall>c\<in>set (Close d). 0 < c" "m \<le> nrows d"
  shows "one_active (spec_scan d [201..<Suc m])"
proof (rule spec_scan_one_active, rule ballI)
  fix i assume "i \<in> set [201..<Suc m]"
  then have "i - 1 < nrows d" using assms(2) by auto
  then show "0 < Close d ! (i - 1)" using assms(1) by (rule closes_positive_nth[rotated])
qed

lemma final_value_equity: "one_active s \<Longrightarrow> final_value_of s p = equity s p"
  by (auto simp: one_active_def final_value_of_def equity_def split: if_splits)

lemma spec_act_equity:
  "Close d ! (i - 1) \<noteq> 0 \<Longrightarrow> equity (spec_act d i s) (Close d ! (i - 1)) = equity s (Close d ! (i - 1))"
  by (simp add: spec_act_def equity_def)

lemma ma_crossover_spec:
  assumes al: "aligned d" and pos: "\<forall>c\<in>set (Close d). 0 < c" and ne: "0 < nrows d"
  shows "ma_crossover_strategy d =
     Inr \<lparr>ma_initial_investment = 10000,
          ma_final_value = equity (spec_scan d [201..<Suc (nrows d)]) (last (Close d)),
          ma_return_percentage =
            (equity (spec_scan d [201..<Suc (nrows d)]) (last (Close d)) - 10000) / 10000 * 100,
          ma_transactions = transactions (spec_scan d [201..<Suc (nrows d)])\<rparr>"
proof -
  have nz: "\<forall>i<nrows d. Close d ! i \<noteq> 0"
    using closes_positive_nth[OF pos] by fastforce
  have loop: "crossover_loop d (nrows d) = Inr (spec_scan d [201..<Suc (nrows d)])"
    using al nz by (rule crossover_loop_spec) simp
  have "Close d \<noteq> []" using ne by (auto simp: nrows_def)
  then have last: "cell (Close d) (- 1) = Inr (last (Close d))" by simp
  have "one_active (spec_scan d [201..<Suc (nrows d)])"
    using pos by (rule scan_one_active) simp
  then have "final_value_of (spec_scan d [201..<Suc (nrows d)]) (last (Close d))
      = equity (spec_scan d [201..<Suc (nrows d)]) (last (Close d))"
    by (rule final_value_equity)
  then show ?thesis
    unfolding ma_crossover_strategy_def loop last by simp
qed

lemma last_step_equity:
  assumes pos: "\<forall>c\<in>set (Close d). 0 < c" and n: "200 < nrows d"
  shows "equity (spec_scan d [201..<Suc (nrows d)]) (last (Close d))
       = equity (spec_scan d [201..<nrows d]) (Close d ! (nrows d - 1))"
proof -
  have ne: "Close d \<noteq> []" using n by (auto simp: nrows_def)
  have l: "last (Close d) = Close d ! (nrows d - 1)"
    using ne by (simp add: last_conv_nth nrows_def)
  have c: "Close d ! (nrows d - 1) \<noteq> 0"
    using closes_positive_nth[OF pos, of "nrows d - 1"] n by simp
  have "[201..<Suc (nrows d)] = [201..<nrows d] @ [nrows d]" using n by simp
  then have "spec_scan d [201..<Suc (nrows d)] = spec_act d (nrows d) (spec_scan d [201..<nrows d])"
    by (simp only: spec_scan_snoc)
  then show ?thesis using spec_act_equity[OF c] l by simp
qed

lemma ma_crossover_short:
  "nrows d \<le> 200 \<Longrightarrow> ma_crossover_strategy d =
     (if Close d = [] then Inl IndexError
      else Inr \<lparr>ma_initial_investment = 10000, ma_final_value = 10000,
                ma_return_percentage = 0, ma_transactions = []\<rparr>)"
  by (simp add: ma_crossover_strategy_def crossover_loop_short initial_position_def final_value_of_def)

lemma ma_crossover_returns:
  assumes "aligned d" "Close d \<noteq> []" "0 \<notin> set (Close d)"
  shows "\<exists>r. ma_crossover_strategy d = Inr r"
proof -
  have "\<forall>i<nrows d. Close d ! i \<noteq> 0"
    using assms(3) by (metis nrows_def nth_mem)
  then have "crossover_loop d (nrows d) = Inr (spec_scan d [201..<Suc (nrows d)])"
    using assms(1) by (intro crossover_loop_spec) simp_all
  then show ?thesis using assms(2) by (simp add: ma_crossover_strategy_def)
qed

subsection \<open>Example runs\<close>

lemma upt_200_202: "[200..<202] = [200, 201]"
  by (simp add: upt_rec)

lemma round_trip_run: "ma_crossover_strategy round_trip_frame =
   Inr \<lparr>ma_initial_investment = 10000, ma_final_value = 20000, ma_return_percentage = 100,
     ma_transactions = [\<lparr>tx_date = 200, tx_action = BUY, tx_price = 2, tx_shares = 5000, tx_value = 10000\<rparr>,
        \<lparr>tx_date = 201, tx_action = SELL, tx_price = 4, tx_shares = 0, tx_value = 20000\<rparr>]\<rparr>"
  by (simp add: ma_crossover_strategy_def crossover_loop_def round_trip_frame_def nrows_def upt_200_202
        crossover_step_def nth_append py_div_def cell_numeral initial_position_def final_value_of_def)

lemma round_trip_props: "aligned round_trip_frame" "nrows round_trip_frame = 202" "\<forall>c\<in>set (Close round_trip_frame). 0 < c"
  by (auto simp: round_trip_frame_def aligned_def nrows_def)

subsection \<open>Indicators\<close>

lemma rolling_mean_length: "length (rolling_mean w xs) = length xs"
  by (simp add: rolling_mean_def)



lemma rolling_mean_window:
  "i < length xs \<Longrightarrow> rolling_mean w xs ! i =
     (let win = drop (Suc i - w) (take (Suc i) xs)
      in if length win < w then None else Some (sum_list win / real (length win)))"
  by (simp add: rolling_mean_def del: take_Suc drop_Suc)

lemma moving_averages_heap:
  "calculate_moving_averages rolling data h =
     (data, h(data := (h data)\<lparr>MA50 := rolling 50 (Close (h data)),
                                 MA200 := rolling 200 (Close (h data))\<rparr>))"
  by (simp add: calculate_moving_averages_def Let_def)



subsection \<open>Signals\<close>

lemma shift1_length: "length (shift1 col) = length col"
  by (simp add: shift1_def)

lemma shift1_nth: "i < length col \<Longrightarrow> shift1 col ! i = (if i = 0 then None else col ! (i - 1))"
  by (cases i) (simp_all add: shift1_def)

lemma generate_signals_cols:
  "Close (generate_signals d) = Close d" "MA50 (generate_signals d) = MA50 d"
  "MA200 (generate_signals d) = MA200 d"
  by (simp_all add: generate_signals_def Let_def)

lemma generate_signals_length:
  assumes "length (MA50 d) = nrows d" "length (MA200 d) = nrows d"
  shows "length (Signal (generate_signals d)) = nrows d"
  using assms
  by (simp add: generate_signals_def Let_def loc_assign_def mask_and_def compare_cols_def shift1_length)

lemma generate_signals_nth:
  assumes "length (MA50 d) = nrows d" "length (MA200 d) = nrows d" "i < nrows d"
  shows "Signal (generate_signals d) ! i =
     (if nan_lt (MA50 d ! i) (MA200 d ! i) \<and> nan_ge (shift1 (MA50 d) ! i) (shift1 (MA200 d) ! i) then - 1
      else if nan_gt (MA50 d ! i) (MA200 d ! i) \<and> nan_le (shift1 (MA50 d) ! i) (shift1 (MA200 d) ! i) then 1
      else 0)"
  using assms
  by (simp add: generate_signals_def Let_def loc_assign_def mask_and_def compare_cols_def shift1_length)

lemma nan_gt_iff: "nan_gt x y = (\<exists>a b. x = Some a \<and> y = Some b \<and> a > b)"
  by (cases x; cases y) auto
lemma nan_lt_iff: "nan_lt x y = (\<exists>a b. x = Some a \<and> y = Some b \<and> a < b)"
  by (cases x; cases y) auto
lemma nan_le_iff: "nan_le x y = (\<exists>a b. x = Some a \<and> y = Some b \<and> a \<le> b)"
  by (cases x; cases y) auto
lemma nan_ge_iff: "nan_ge x y = (\<exists>a b. x = Some a \<and> y = Some b \<and> a \<ge> b)"
  by (cases x; cases y) auto

text \<open>
  C6: on a frame whose indicator columns have one entry per row, the signal at every
  index is one of 1 (Buy), -1 (Sell) and 0 (None); at \<open>i \<ge> 1\<close> it is Buy exactly when
  both indicators are defined at \<open>i\<close> and \<open>i - 1\<close> with
  \<open>ma_short[i] > ma_long[i]\<close> and \<open>ma_short[i-1] \<le> ma_long[i-1]\<close>, Sell exactly when
  they are defined with \<open>ma_short[i] < ma_long[i]\<close> and \<open>ma_short[i-1] \<ge> ma_long[i-1]\<close>;
  it is None whenever an indicator is undefined at \<open>i\<close> or \<open>i - 1\<close>, and at index 0.
\<close>

theorem signal_classification:
  assumes "length (MA50 d) = nrows d" and "length (MA200 d) = nrows d" and "i < nrows d"
  shows "Signal (generate_signals d) ! i \<in> {1, - 1, 0}
       \<and> (0 < i \<longrightarrow> (Signal (generate_signals d) ! i = 1) =
            (\<exists>a b p q. MA50 d ! i = Some a \<and> MA200 d ! i = Some b
               \<and> MA50 d ! (i - 1) = Some p \<and> MA200 d ! (i - 1) = Some q \<and> a > b \<and> p \<le> q))
       \<and> (0 < i \<longrightarrow> (Signal (generate_signals d) ! i = - 1) =
            (\<exists>a b p q. MA50 d ! i = Some a \<and> MA200 d ! i = Some b
               \<and> MA50 d ! (i - 1) = Some p \<and> MA200 d ! (i - 1) = Some q \<and> a < b \<and> p \<ge> q))
       \<and> (MA50 d ! i = None \<or> MA200 d ! i = None \<or> MA50 d ! (i - 1) = None
            \<or> MA200 d ! (i - 1) = None \<longrightarrow> Signal (generate_signals d) ! i = 0)
       \<and> (i = 0 \<longrightarrow> Signal (generate_signals d) ! i = 0)
       \<and> length (Signal (generate_signals d)) = nrows d"
proof -
  have l: "i < length (MA50 d)" "i < length (MA200 d)" using assms by simp_all
  note s = generate_signals_nth[OF assms] shift1_nth[OF l(1)] shift1_nth[OF l(2)]
  have 1: "Signal (generate_signals d) ! i \<in> {1, - 1, 0}" unfolding s(1) by simp
  have 2: "(Signal (generate_signals d) ! i = 1) =
            (\<exists>a b p q. MA50 d ! i = Some a \<and> MA200 d ! i = Some b
               \<and> MA50 d ! (i - 1) = Some p \<and> MA200 d ! (i - 1) = Some q \<and> a > b \<and> p \<le> q)"
    if "0 < i"
    using that unfolding s by (auto simp: nan_gt_iff nan_lt_iff nan_le_iff nan_ge_iff)
  have 3: "(Signal (generate_signals d) ! i = - 1) =
            (\<exists>a b p q. MA50 d ! i = Some a \<and> MA200 d ! i = Some b
               \<and> MA50 d ! (i - 1) = Some p \<and> MA200 d ! (i - 1) = Some q \<and> a < b \<and> p \<ge> q)"
    if "0 < i"
    using that unfolding s by (auto simp: nan_gt_iff nan_lt_iff nan_le_iff nan_ge_iff)
  have 4: "Signal (generate_signals d) ! i = 0"
    if "MA50 d ! i = None \<or> MA200 d ! i = None \<or> MA50 d ! (i - 1) = None
            \<or> MA200 d ! (i - 1) = None"
    using that unfolding s by (auto simp: nan_gt_iff nan_lt_iff nan_le_iff nan_ge_iff)
  have 5: "Signal (generate_signals d) ! i = 0" if "i = 0"
    using that unfolding s by simp
  show ?thesis using 1 2 3 4 5 generate_signals_length[OF assms(1,2)] by blast
qed

subsection \<open>The pipeline on a step in the prices\<close>

lemma pipeline_frame:
  "pipeline cs =
     generate_signals ((price_frame cs)\<lparr>MA50 := rolling_mean 50 cs, MA200 := rolling_mean 200 cs\<rparr>)"
  by (simp add: pipeline_def moving_averages_heap price_frame_def)

lemma pipeline_cols:
  "Close (pipeline cs) = cs" "nrows (pipeline cs) = length cs"
  "MA50 (pipeline cs) = rolling_mean 50 cs" "MA200 (pipeline cs) = rolling_mean 200 cs"
  "length (Signal (pipeline cs)) = length cs" "aligned (pipeline cs)"
  by (simp_all add: pipeline_frame generate_signals_cols
        price_frame_def nrows_def generate_signals_length rolling_mean_length aligned_def)

lemma pipeline_signal:
  assumes "i < length cs"
  shows "Signal (pipeline cs) ! i =
     (if nan_lt (rolling_mean 50 cs ! i) (rolling_mean 200 cs ! i)
         \<and> nan_ge (shift1 (rolling_mean 50 cs) ! i) (shift1 (rolling_mean 200 cs) ! i) then - 1
      else if nan_gt (rolling_mean 50 cs ! i) (rolling_mean 200 cs ! i)
         \<and> nan_le (shift1 (rolling_mean 50 cs) ! i) (shift1 (rolling_mean 200 cs) ! i) then 1
      else 0)"
proof -
  let ?d = "(price_frame cs)\<lparr>MA50 := rolling_mean 50 cs, MA200 := rolling_mean 200 cs\<rparr>"
  have c: "MA50 ?d = rolling_mean 50 cs" "MA200 ?d = rolling_mean 200 cs" "nrows ?d = length cs"
    by (simp_all add: price_frame_def nrows_def)
  have "length (MA50 ?d) = nrows ?d" "length (MA200 ?d) = nrows ?d" "i < nrows ?d"
    using assms by (simp_all add: c rolling_mean_length del: frame.simps)
  from generate_signals_nth[OF this] show ?thesis by (simp add: pipeline_frame c)
qed

lemma step_prices_ma:
  "rolling_mean 50 (replicate 200 a @ [b]) ! 199 = Some a"
  "rolling_mean 200 (replicate 200 a @ [b]) ! 199 = Some a"
  "rolling_mean 50 (replicate 200 a @ [b]) ! 200 = Some ((49 * a + b) / 50)"
  "rolling_mean 200 (replicate 200 a @ [b]) ! 200 = Some ((199 * a + b) / 200)"
  by (simp_all add: rolling_mean_window Let_def sum_list_replicate)

lemma crossing_signal: "Signal crossing_frame ! 200 = 1"
  by (simp add: crossing_frame_def pipeline_signal shift1_nth rolling_mean_length step_prices_ma)

lemma negative_signal: "Signal negative_frame ! 200 = 1"
  by (simp add: negative_frame_def pipeline_signal shift1_nth rolling_mean_length step_prices_ma)

lemma single_buy:
  assumes "nrows d = 201" "length (Signal d) = 201" "Signal d ! 200 = 1" "Close d ! 200 \<noteq> 0"
  shows "crossover_loop d (nrows d) =
     Inr \<lparr>cash = 0, shares = 10000 / Close d ! 200, in_market = True,
          transactions = [\<lparr>tx_date = 200, tx_action = BUY, tx_price = Close d ! 200,
             tx_shares = 10000 / Close d ! 200,
             tx_value = 10000 / Close d ! 200 * Close d ! 200\<rparr>]\<rparr>"
proof -
  have "[200..<201] = [200::nat]" by (simp add: upt_rec)
  then show ?thesis using assms
    by (simp add: crossover_loop_def crossover_step_def nrows_def cell_numeral py_div_def
        initial_position_def)
qed

lemma crossing_props:
  "aligned crossing_frame" "nrows crossing_frame = 201" "length (Signal crossing_frame) = 201"
  "Close crossing_frame = replicate 200 1 @ [2]"
  by (simp_all add: crossing_frame_def pipeline_cols)

lemma negative_props:
  "aligned negative_frame" "nrows negative_frame = 201" "length (Signal negative_frame) = 201"
  "Close negative_frame = replicate 200 (- 2) @ [- 1]"
  by (simp_all add: negative_frame_def pipeline_cols)

lemma crossing_run:
  "ma_crossover_strategy crossing_frame =
     Inr \<lparr>ma_initial_investment = 10000, ma_final_value = 10000, ma_return_percentage = 0,
          ma_transactions = [\<lparr>tx_date = 200, tx_action = BUY, tx_price = 2, tx_shares = 5000,
             tx_value = 10000\<rparr>]\<rparr>"
proof -
  have c: "Close crossing_frame ! 200 = 2" by (simp add: crossing_props nth_append)
  have "crossover_loop crossing_frame (nrows crossing_frame) =
     Inr \<lparr>cash = 0, shares = 5000, in_market = True,
          transactions = [\<lparr>tx_date = 200, tx_action = BUY, tx_price = 2,
             tx_shares = 5000, tx_value = 10000\<rparr>]\<rparr>"
    using single_buy[OF crossing_props(2,3) crossing_signal] c by simp
  then show ?thesis
    by (simp add: ma_crossover_strategy_def final_value_of_def crossing_props(4))
qed

lemma negative_run:
  "ma_crossover_strategy negative_frame =
     Inr \<lparr>ma_initial_investment = 10000, ma_final_value = 10000, ma_return_percentage = 0,
          ma_transactions = [\<lparr>tx_date = 200, tx_action = BUY, tx_price = - 1,
             tx_shares = - 10000, tx_value = 10000\<rparr>]\<rparr>"
proof -
  have c: "Close negative_frame ! 200 = - 1" by (simp add: negative_props nth_append)
  have "crossover_loop negative_frame (nrows negative_frame) =
     Inr \<lparr>cash = 0, shares = - 10000, in_market = True,
          transactions = [\<lparr>tx_date = 200, tx_action = BUY, tx_price = - 1,
             tx_shares = - 10000, tx_value = 10000\<rparr>]\<rparr>"
    using single_buy[OF negative_props(2,3) negative_signal] c by simp
  then show ?thesis
    by (simp add: ma_crossover_strategy_def final_value_of_def negative_props(4))
qed

lemma short_props: "nrows short_frame = 200" "Close short_frame = replicate 200 1"
  by (simp_all add: short_frame_def pipeline_cols)

lemma tiny_props: "nrows tiny_frame = 3" "Close tiny_frame = [1, 2, 3]"
  by (simp_all add: tiny_frame_def pipeline_cols)


text \<open>C6 on the indicators of 200 closes of 1 followed by a close of 2: Buy at index 200,
  None at index 0.\<close>

theorem signal_classification_witness:
  "Signal (pipeline (replicate 200 1 @ [2])) ! 200 = 1
   \<and> Signal (pipeline (replicate 200 1 @ [2])) ! 0 = 0"
proof -
  define d where
    "d = (price_frame (replicate 200 1 @ [2]))\<lparr>MA50 := rolling_mean 50 (replicate 200 1 @ [2]),
           MA200 := rolling_mean 200 (replicate 200 1 @ [2])\<rparr>"
  have m: "MA50 d = rolling_mean 50 (replicate 200 1 @ [2])"
    "MA200 d = rolling_mean 200 (replicate 200 1 @ [2])" "nrows d = 201"
    by (simp_all add: d_def price_frame_def nrows_def)
  have l: "length (MA50 d) = nrows d" "length (MA200 d) = nrows d"
    by (simp_all add: m rolling_mean_length)
  have "\<exists>a b p q. MA50 d ! 200 = Some a \<and> MA200 d ! 200 = Some b
               \<and> MA50 d ! (200 - 1) = Some p \<and> MA200 d ! (200 - 1) = Some q \<and> a > b \<and> p \<le> q"
    by (rule exI[of _ "51 / 50"], rule exI[of _ "201 / 200"], rule exI[of _ 1], rule exI[of _ 1])
      (simp add: m step_prices_ma)
  then have 1: "Signal (generate_signals d) ! 200 = 1"
    using signal_classification[OF l, of 200] m(3) by simp
  have 2: "Signal (generate_signals d) ! 0 = 0"
    using signal_classification[OF l, of 0] m(3) by simp
  from 1 2 show ?thesis unfolding d_def pipeline_frame by simp
qed

subsection \<open>Alternation of the log\<close>

lemma not_BUY: "(a \<noteq> BUY) = (a = SELL)"
  by (cases a) auto

lemma alternates_snoc:
  "alternates a (xs @ [x]) =
     (alternates a xs \<and> x = (if even (length xs) then a else if a = BUY then SELL else BUY))"
  by (induction xs arbitrary: a) (auto simp: not_BUY)

lemma crossover_step_log_ok:
  "crossover_step d i s = Inr s' \<Longrightarrow> log_ok s \<Longrightarrow> log_ok s'"
  by (auto simp: crossover_step_def log_ok_def and_then_def alternates_snoc
           split: sum.splits if_splits)

lemma for_each_log_ok:
  "for_each (crossover_step d) is s = Inr s' \<Longrightarrow> log_ok s \<Longrightarrow> log_ok s'"
proof (induction "is" arbitrary: s)
  case Nil
  then show ?case by simp
next
  case (Cons i "is")
  then show ?case by (auto split: sum.splits dest: crossover_step_log_ok)
qed

lemma alternates_first: "alternates a xs \<Longrightarrow> xs \<noteq> [] \<Longrightarrow> hd xs = a"
  by (cases xs) auto

lemma alternates_adjacent: "alternates a xs \<Longrightarrow> Suc k < length xs \<Longrightarrow> xs ! k \<noteq> xs ! Suc k"
proof (induction xs arbitrary: a k)
  case Nil
  then show ?case by simp
next
  case (Cons x xs)
  show ?case
  proof (cases k)
    case 0
    with Cons.prems show ?thesis by (cases xs) (auto split: if_splits)
  next
    case (Suc j)
    with Cons show ?thesis by auto
  qed
qed

lemma ma_crossover_log:
  assumes "ma_crossover_strategy d = Inr r"
  shows "alternates BUY (map tx_action (ma_transactions r))"
proof -
  from assms obtain s where s: "crossover_loop d (nrows d) = Inr s" "ma_transactions r = transactions s"
    by (auto simp: ma_crossover_strategy_def and_then_def split: sum.splits)
  have "log_ok initial_position" by (simp add: log_ok_def initial_position_def)
  with s(1) have "log_ok s" unfolding crossover_loop_def by (rule for_each_log_ok)
  then show ?thesis using s(2) by (simp add: log_ok_def)
qed

text \<open>
  C8: in every transaction log that \<^verbatim>\<open>ma_crossover_strategy\<close> returns, the first
  transaction (if any) is a Buy and no two consecutive transactions carry the same
  action: the labels alternate Buy, Sell, Buy, \<dots>. A log is returned for every
  non-empty frame with aligned columns and no zero close.
\<close>

theorem transactions_alternate:
  "(\<forall>r. ma_crossover_strategy d = Inr r \<longrightarrow>
       (ma_transactions r \<noteq> [] \<longrightarrow> tx_action (hd (ma_transactions r)) = BUY)
     \<and> (\<forall>k. Suc k < length (ma_transactions r) \<longrightarrow>
             tx_action (ma_transactions r ! k) \<noteq> tx_action (ma_transactions r ! Suc k))
     \<and> alternates BUY (map tx_action (ma_transactions r)))
   \<and> (aligned d \<and> Close d \<noteq> [] \<and> 0 \<notin> set (Close d) \<longrightarrow> (\<exists>r. ma_crossover_strategy d = Inr r))"
proof (intro conjI allI impI)
  fix r assume r: "ma_crossover_strategy d = Inr r"
  then have a: "alternates BUY (map tx_action (ma_transactions r))" by (rule ma_crossover_log)
  then show "alternates BUY (map tx_action (ma_transactions r))" .
  show "tx_action (hd (ma_transactions r)) = BUY" if "ma_transactions r \<noteq> []"
    using alternates_first[OF a] that by (simp add: hd_map)
  show "tx_action (ma_transactions r ! k) \<noteq> tx_action (ma_transactions r ! Suc k)"
    if "Suc k < length (ma_transactions r)" for k
    using alternates_adjacent[OF a, of k] that by simp
next
  assume "aligned d \<and> Close d \<noteq> [] \<and> 0 \<notin> set (Close d)"
  then show "\<exists>r. ma_crossover_strategy d = Inr r" by (simp add: ma_crossover_returns)
qed

text \<open>C8 on a frame with a Buy at index 200 and a Sell at index 201.\<close>

theorem transactions_alternate_witness:
  "\<exists>r. ma_crossover_strategy round_trip_frame = Inr r \<and> map tx_action (ma_transactions r) = [BUY, SELL]
     \<and> tx_action (hd (ma_transactions r)) = BUY
     \<and> tx_action (ma_transactions r ! 0) \<noteq> tx_action (ma_transactions r ! Suc 0)
     \<and> alternates BUY (map tx_action (ma_transactions r))"
proof -
  have a: "aligned round_trip_frame \<and> Close round_trip_frame \<noteq> [] \<and> 0 \<notin> set (Close round_trip_frame)"
    by (auto simp: round_trip_frame_def aligned_def)
  with transactions_alternate[of round_trip_frame] obtain r where r: "ma_crossover_strategy round_trip_frame = Inr r" by blast
  with transactions_alternate[of round_trip_frame] have
    "(ma_transactions r \<noteq> [] \<longrightarrow> tx_action (hd (ma_transactions r)) = BUY)
     \<and> (\<forall>k. Suc k < length (ma_transactions r) \<longrightarrow>
             tx_action (ma_transactions r ! k) \<noteq> tx_action (ma_transactions r ! Suc k))
     \<and> alternates BUY (map tx_action (ma_transactions r))" by blast
  moreover have "map tx_action (ma_transactions r) = [BUY, SELL]" using r round_trip_run by auto
  moreover have "length (ma_transactions r) = 2" "ma_transactions r \<noteq> []" using r round_trip_run by auto
  ultimately show ?thesis using r by auto
qed

subsection \<open>One active holding\<close>



subsection \<open>Buy and hold, and the equity curves\<close>

lemma bh_loop:
  "m \<le> nrows d \<Longrightarrow>
   for_each (bh_step d sh) [0..<m] [] =
     Inr (map (\<lambda>i. if i < 200 then None else Some (sh * Close d ! i)) [0..<m])"
proof (induction m)
  case 0
  show ?case by simp
next
  case (Suc m)
  then have "m < length (Close d)" by (simp add: nrows_def)
  with Suc show ?case
    by (simp add: for_each_append for_each_single bh_step_def)
qed

lemma buy_and_hold_short: "nrows d \<le> 200 \<Longrightarrow> buy_and_hold d = Inl IndexError"
  by (simp add: buy_and_hold_def nrows_def cell_numeral_short)

lemma prepare_short: "nrows d \<le> 200 \<Longrightarrow> prepare_strategy_data d sh = Inl IndexError"
  by (simp add: prepare_strategy_data_def bh_loop iloc_numeral)

lemma buy_and_hold_ok:
  assumes "200 < nrows d" "Close d ! 200 \<noteq> 0"
  shows "buy_and_hold d =
     Inr \<lparr>bh_initial_investment = 10000,
          bh_final_value = 10000 / Close d ! 200 * last (Close d),
          bh_return_percentage = (10000 / Close d ! 200 * last (Close d) - 10000) / 10000 * 100,
          bh_shares = 10000 / Close d ! 200\<rparr>"
proof -
  have "Close d \<noteq> []" using assms(1) by (auto simp: nrows_def)
  then show ?thesis using assms
    by (simp add: buy_and_hold_def nrows_def cell_numeral py_div_def)
qed

lemma equity_loop_Suc:
  "200 < m \<Longrightarrow> equity_loop d (Suc m) = and_then (equity_loop d m) (equity_step d m)"
  by (simp add: equity_loop_def for_each_append for_each_single)

lemma equity_loop_201: "equity_loop d 201 = Inr (initial_equity (nrows d))"
  by (simp add: equity_loop_def)

lemma equity_trade_spec:
  assumes "eq_in_market e = in_market s" "eq_shares e = shares s"
    "in_market s \<or> current_value e = cash s" "Close d ! m \<noteq> 0"
  shows "\<exists>t. equity_trade (real_of_int (Signal d ! m)) (Close d ! m) e = Inr t
     \<and> eq_in_market t = in_market (spec_act d (Suc m) s)
     \<and> eq_shares t = shares (spec_act d (Suc m) s)
     \<and> (in_market (spec_act d (Suc m) s) \<or> current_value t = cash (spec_act d (Suc m) s))
     \<and> ma_values t = ma_values e"
  using assms by (auto simp: equity_trade_def spec_act_def py_div_def)

lemma tracksD:
  assumes "tracks d m e"
  shows "eq_in_market e = in_market (spec_scan d [201..<Suc m])"
    "eq_shares e = shares (spec_scan d [201..<Suc m])"
    "in_market (spec_scan d [201..<Suc m]) \<or> current_value e = cash (spec_scan d [201..<Suc m])"
    "length (ma_values e) = nrows d"
    "j < nrows d \<Longrightarrow> ma_values e ! j =
            (if 200 \<le> j \<and> j \<le> m then Some (equity (spec_scan d [201..<Suc j]) (Close d ! j))
             else None)"
  using assms unfolding tracks_def Let_def by blast+

lemma tracksI:
  assumes "eq_in_market e = in_market (spec_scan d [201..<Suc m])"
    "eq_shares e = shares (spec_scan d [201..<Suc m])"
    "in_market (spec_scan d [201..<Suc m]) \<or> current_value e = cash (spec_scan d [201..<Suc m])"
    "length (ma_values e) = nrows d"
    "\<And>j. j < nrows d \<Longrightarrow> ma_values e ! j =
            (if 200 \<le> j \<and> j \<le> m then Some (equity (spec_scan d [201..<Suc j]) (Close d ! j))
             else None)"
  shows "tracks d m e"
  using assms unfolding tracks_def Let_def by blast

lemma equity_step_tracks:
  assumes al: "aligned d" and nz: "\<forall>i<nrows d. Close d ! i \<noteq> 0"
    and m: "200 \<le> m" "Suc m < nrows d" and tr: "tracks d m e"
  shows "\<exists>e'. equity_step d (Suc m) e = Inr e' \<and> tracks d (Suc m) e'"
proof -
  define s where "s = spec_scan d [201..<Suc m]"
  define s' where "s' = spec_scan d [201..<Suc (Suc m)]"
  have s': "s' = spec_act d (Suc m) s"
    using m(1) by (simp add: spec_scan_snoc s_def s'_def)
  have c0: "Close d ! m \<noteq> 0" using nz m by simp
  have len: "Suc m < length (Close d)" "Suc m < length (Signal d)"
    using m al by (simp_all add: nrows_def aligned_def)
  have sg: "cell (map real_of_int (Signal d)) (int (Suc m) - 1) = Inr (real_of_int (Signal d ! m))"
    using len by simp
  have pc: "cell (Close d) (int (Suc m) - 1) = Inr (Close d ! m)"
    using len by simp
  have cc: "cell (Close d) (int (Suc m)) = Inr (Close d ! Suc m)"
    using len by (intro cell_in_range)
  note trD = tracksD[OF tr, folded s_def]
  from equity_trade_spec[OF trD(1,2,3) c0, folded s']
  obtain t where t: "equity_trade (real_of_int (Signal d ! m)) (Close d ! m) e = Inr t"
    and t1: "eq_in_market t = in_market s'" and t2: "eq_shares t = shares s'"
    and t3: "in_market s' \<or> current_value t = cash s'"
    and t4: "ma_values t = ma_values e"
    by blast
  define v where "v = (if eq_in_market t then eq_shares t * Close d ! Suc m else current_value t)"
  define e' where "e' = t\<lparr>ma_values := (ma_values t)[Suc m := Some v]\<rparr>"
  have step: "equity_step d (Suc m) e = Inr e'"
    unfolding equity_step_def sg pc cc e'_def v_def using t by simp
  have val: "v = equity s' (Close d ! Suc m)"
    using t1 t2 t3 by (auto simp: equity_def v_def)
  have "tracks d (Suc m) e'"
  proof (rule tracksI)
    show "eq_in_market e' = in_market (spec_scan d [201..<Suc (Suc m)])"
      using t1 by (simp add: e'_def s'_def)
    show "eq_shares e' = shares (spec_scan d [201..<Suc (Suc m)])"
      using t2 by (simp add: e'_def s'_def)
    show "in_market (spec_scan d [201..<Suc (Suc m)])
       \<or> current_value e' = cash (spec_scan d [201..<Suc (Suc m)])"
      using t3 by (simp add: e'_def s'_def)
    show "length (ma_values e') = nrows d" using trD(4) t4 by (simp add: e'_def)
  next
    fix j assume j: "j < nrows d"
    note old = tracksD(5)[OF tr j]
    show "ma_values e' ! j =
            (if 200 \<le> j \<and> j \<le> Suc m then Some (equity (spec_scan d [201..<Suc j]) (Close d ! j))
             else None)"
    proof (cases "j = Suc m")
      case True
      have "ma_values e' ! j = Some v"
        using True t4 trD(4) m(2) by (simp add: e'_def)
      then show ?thesis using True val m(1) by (simp add: s'_def del: upt_Suc)
    next
      case False
      have "ma_values e' ! j = ma_values e ! j"
        using False t4 by (simp add: e'_def)
      then show ?thesis using old False by (auto simp del: upt_Suc)
    qed
  qed
  with step show ?thesis by blast
qed

lemma equity_loop_tracks:
  assumes al: "aligned d" and nz: "\<forall>i<nrows d. Close d ! i \<noteq> 0"
    and m: "200 \<le> m" "m < nrows d"
  shows "\<exists>e. equity_loop d (Suc m) = Inr e \<and> tracks d m e"
  using m
proof (induction m rule: dec_induct)
  case base
  have "tracks d 200 (initial_equity (nrows d))"
  proof (rule tracksI)
    fix j assume "j < nrows d"
    then show "ma_values (initial_equity (nrows d)) ! j =
         (if 200 \<le> j \<and> j \<le> 200 then Some (equity (spec_scan d [201..<Suc j]) (Close d ! j))
          else None)"
      by (auto simp: initial_equity_def spec_scan_Nil equity_def initial_position_def nth_list_update)
  qed (simp_all add: initial_equity_def spec_scan_Nil initial_position_def)
  then show ?case by (simp add: equity_loop_201)
next
  case (step m)
  then obtain e where e: "equity_loop d (Suc m) = Inr e" "tracks d m e" by auto
  from equity_step_tracks[OF al nz step.hyps(1) step.prems e(2)]
  obtain e' where "equity_step d (Suc m) e = Inr e'" "tracks d (Suc m) e'" by blast
  then show ?case using e(1) step.hyps(1) by (simp add: equity_loop_Suc)
qed

lemma prepare_spec:
  assumes al: "aligned d" and pos: "\<forall>c\<in>set (Close d). 0 < c" and n: "200 < nrows d"
  shows "\<exists>e. prepare_strategy_data d bh =
           Inr (d\<lparr>BH_Value := map (\<lambda>i. if i < 200 then None else Some (bh * Close d ! i)) [0..<nrows d],
                  MA_Value := ma_values e\<rparr>)
         \<and> tracks d (nrows d - 1) e"
proof -
  have nz: "\<forall>i<nrows d. Close d ! i \<noteq> 0"
    using closes_positive_nth[OF pos] by fastforce
  have "\<exists>e. equity_loop d (Suc (nrows d - 1)) = Inr e \<and> tracks d (nrows d - 1) e"
    using al nz by (rule equity_loop_tracks) (use n in simp_all)
  then obtain e where e: "equity_loop d (nrows d) = Inr e" "tracks d (nrows d - 1) e"
    using n by auto
  have "prepare_strategy_data d bh =
           Inr (d\<lparr>BH_Value := map (\<lambda>i. if i < 200 then None else Some (bh * Close d ! i)) [0..<nrows d],
                  MA_Value := ma_values e\<rparr>)"
    using n e(1) by (simp add: prepare_strategy_data_def bh_loop iloc_numeral)
  with e(2) show ?thesis by blast
qed

lemma replicate_update_last: "(replicate (Suc n) x)[n := y] = replicate n x @ [y]"
proof -
  have "replicate (Suc n) x = replicate n x @ [x]" by (simp add: replicate_append_same)
  then have "(replicate (Suc n) x)[n := y] = (replicate n x @ [x])[n := y]" by (rule arg_cong)
  also have "\<dots> = replicate n x @ [y]" by (simp add: list_update_append)
  finally show ?thesis .
qed

lemma prepare_201:
  assumes "nrows d = 201"
  shows "prepare_strategy_data d sh =
     Inr (d\<lparr>BH_Value := replicate 200 None @ [Some (sh * Close d ! 200)],
            MA_Value := replicate 200 None @ [Some 10000]\<rparr>)"
proof -
  have u: "[0..<201] = [0..<200] @ [200::nat]" by (simp add: upt_rec)
  have "map (\<lambda>i. if i < 200 then None else Some (sh * Close d ! i)) [0..<200]
      = map (\<lambda>i. None) [0..<200::nat]"
    by (rule map_cong) simp_all
  then have bh: "map (\<lambda>i. if i < 200 then None else Some (sh * Close d ! i)) [0..<201]
      = replicate 200 None @ [Some (sh * Close d ! 200)]"
    unfolding u by (simp add: map_replicate_const)
  have "(replicate 201 None)[200 := Some 10000] = replicate 200 None @ [Some (10000::real)]"
    using replicate_update_last[of 200 "None" "Some (10000::real)"] by simp
  then have ma: "ma_values (initial_equity 201) = replicate 200 None @ [Some 10000]"
    by (simp add: initial_equity_def)
  have "for_each (bh_step d sh) [0..<nrows d] [] =
     Inr (map (\<lambda>i. if i < 200 then None else Some (sh * Close d ! i)) [0..<nrows d])"
    by (rule bh_loop) simp
  then show ?thesis using assms bh ma
    by (simp add: prepare_strategy_data_def iloc_numeral equity_loop_201)
qed

subsection \<open>The two implementations of the crossover strategy\<close>

text \<open>
  In exact arithmetic, on a frame of more than 200 rows with all closes positive, both
  \<^verbatim>\<open>ma_crossover_strategy\<close> and \<^verbatim>\<open>prepare_strategy_data\<close> return, and the last
  entry of the \<^verbatim>\<open>MA_Value\<close> column is the \<^verbatim>\<open>final_value\<close> of the strategy.
\<close>

lemma exact_end_values_agree:
  assumes "aligned d" and "200 < nrows d" and "\<forall>c\<in>set (Close d). 0 < c"
  shows "\<exists>r f. ma_crossover_strategy d = Inr r \<and> prepare_strategy_data d bh = Inr f
           \<and> length (MA_Value f) = nrows d
           \<and> MA_Value f ! (nrows d - 1) = Some (ma_final_value r)"
proof -
  from prepare_spec[OF assms(1,3,2), of bh] obtain e f
    where f: "prepare_strategy_data d bh = Inr f" "MA_Value f = ma_values e"
      and tr: "tracks d (nrows d - 1) e"
    by force
  have "ma_values e ! (nrows d - 1) =
      Some (equity (spec_scan d [201..<Suc (nrows d - 1)]) (Close d ! (nrows d - 1)))"
    using tracksD(5)[OF tr, of "nrows d - 1"] assms(2) by simp
  moreover have "Suc (nrows d - 1) = nrows d" using assms(2) by simp
  ultimately have "ma_values e ! (nrows d - 1) =
      Some (equity (spec_scan d [201..<Suc (nrows d)]) (last (Close d)))"
    using last_step_equity[OF assms(3,2)] by simp
  moreover have "0 < nrows d" using assms(2) by simp
  note ma_crossover_spec[OF assms(1,3) this]
  ultimately show ?thesis using f tracksD(4)[OF tr] by simp
qed

subsection \<open>The two implementations in float arithmetic\<close>

lemma pow2_pos: "0 < pow2 e"
  by (simp add: pow2_def)

lemma round_half_even_nonneg: "0 \<le> r \<Longrightarrow> 0 \<le> round_half_even r"
  by (auto simp: round_half_even_def)

lemma double_round_sign_keeping: "sign_keeping double_round"
proof -
  have "0 \<le> double_round x" if "0 \<le> x" for x
  proof (cases "x = 0")
    case True
    then show ?thesis by (simp add: double_round_def)
  next
    case False
    with that have "0 < x" by simp
    then have "0 \<le> \<bar>x\<bar> / pow2 (max (binary_exponent \<bar>x\<bar>) (- 1022) - 52)"
      using pow2_pos by (simp add: less_imp_le)
    then have "0 \<le> round_half_even (\<bar>x\<bar> / pow2 (max (binary_exponent \<bar>x\<bar>) (- 1022) - 52))"
      by (rule round_half_even_nonneg)
    then show ?thesis
      using \<open>0 < x\<close> pow2_pos[of "max (binary_exponent \<bar>x\<bar>) (- 1022) - 52"]
      by (simp add: double_round_def less_imp_le)
  qed
  then show ?thesis by (simp add: sign_keeping_def double_round_def)
qed

lemma bit_length_71: "bit_length 71 = 7"
  by (simp add: bit_length.simps)

lemma bit_length_9999: "bit_length 9999 = 14"
  by (simp add: bit_length.simps)

lemma bit_length_10000: "bit_length 10000 = 14"
  by (simp add: bit_length.simps)

lemma double_round_quotient:
  "double_round (10000 / 139) = 5062499581126906 / 2 ^ 46"
  by (simp add: double_round_def binary_exponent_def bit_length_71 pow2_def round_half_even_def)

lemma double_round_product:
  "double_round (5062499581126906 / 2 ^ 46 * 139) = 10000 - 1 / 2 ^ 39"
  by (simp add: double_round_def binary_exponent_def bit_length_9999 pow2_def round_half_even_def)

lemma double_round_10000: "double_round 10000 = 10000"
  by (simp add: double_round_def binary_exponent_def bit_length_10000 pow2_def round_half_even_def)

lemma py_div_exact: "py_div_fl (\<lambda>x. x) = py_div"
  by (intro ext) (simp add: py_div_fl_def py_div_def)

lemma crossover_step_exact: "crossover_step_fl (\<lambda>x. x) d i s = crossover_step d i s"
  unfolding crossover_step_fl_def crossover_step_def py_div_exact ..

lemma ma_crossover_strategy_exact: "ma_crossover_strategy_fl (\<lambda>x. x) d = ma_crossover_strategy d"
proof -
  have "crossover_step_fl (\<lambda>x. x) d = crossover_step d"
    by (intro ext) (rule crossover_step_exact)
  then show ?thesis
    by (simp add: ma_crossover_strategy_fl_def ma_crossover_strategy_def crossover_loop_fl_def
        crossover_loop_def final_value_of_fl_def final_value_of_def)
qed

lemma prepare_strategy_data_exact:
  "prepare_strategy_data_fl (\<lambda>x. x) d bh = prepare_strategy_data d bh"
proof -
  have "equity_step_fl (\<lambda>x. x) d = equity_step d"
    unfolding equity_step_fl_def equity_step_def equity_trade_fl_def equity_trade_def
      py_div_exact ..
  moreover have "bh_step_fl (\<lambda>x. x) d bh = bh_step d bh"
    by (intro ext) (simp add: bh_step_fl_def bh_step_def)
  ultimately show ?thesis
    by (simp add: prepare_strategy_data_fl_def prepare_strategy_data_def equity_loop_fl_def
        equity_loop_def)
qed

lemma crossover_loop_fl_Suc:
  "200 \<le> m \<Longrightarrow>
   crossover_loop_fl rnd d (Suc m) = and_then (crossover_loop_fl rnd d m) (crossover_step_fl rnd d m)"
  by (simp add: crossover_loop_fl_def for_each_append for_each_single)

lemma equity_loop_fl_Suc:
  "200 < m \<Longrightarrow>
   equity_loop_fl rnd d (Suc m) = and_then (equity_loop_fl rnd d m) (equity_step_fl rnd d m)"
  by (simp add: equity_loop_fl_def for_each_append for_each_single)

lemma bh_loop_fl:
  "m \<le> nrows d \<Longrightarrow>
   for_each (bh_step_fl rnd d sh) [0..<m] [] =
     Inr (map (\<lambda>i. if i < 200 then None else Some (rnd (sh * Close d ! i))) [0..<m])"
proof (induction m)
  case 0
  show ?case by simp
next
  case (Suc m)
  then have "m < length (Close d)" by (simp add: nrows_def)
  with Suc show ?case
    by (simp add: for_each_append for_each_single bh_step_fl_def)
qed

lemma followsD:
  assumes "follows rnd d m s e"
  shows "eq_in_market e = in_market s" "eq_shares e = shares s"
    "in_market s \<or> current_value e = cash s"
    "if in_market s then cash s = 0 else shares s = 0"
    "0 \<le> cash s" "0 \<le> shares s" "length (ma_values e) = nrows d"
    "ma_values e ! m = Some (if in_market s then rnd (shares s * Close d ! m) else cash s)"
  using assms unfolding follows_def by blast+

lemma sign_keepingD:
  assumes "sign_keeping rnd"
  shows "rnd 0 = 0" "0 \<le> x \<Longrightarrow> 0 \<le> rnd x"
  using assms by (auto simp: sign_keeping_def)

lemma crossover_step_fl_cases:
  assumes "aligned d" "m < nrows d" "Close d ! m \<noteq> 0"
  shows "crossover_step_fl rnd d m s = Inr
     (if Signal d ! m = 1 \<and> \<not> in_market s then
        \<lparr>cash = 0, shares = rnd (cash s / Close d ! m), in_market = True,
         transactions = transactions s @
           [\<lparr>tx_date = m, tx_action = BUY, tx_price = Close d ! m,
             tx_shares = rnd (cash s / Close d ! m),
             tx_value = rnd (rnd (cash s / Close d ! m) * Close d ! m)\<rparr>]\<rparr>
      else if Signal d ! m = - 1 \<and> in_market s then
        \<lparr>cash = rnd (shares s * Close d ! m), shares = 0, in_market = False,
         transactions = transactions s @
           [\<lparr>tx_date = m, tx_action = SELL, tx_price = Close d ! m, tx_shares = 0,
             tx_value = rnd (shares s * Close d ! m)\<rparr>]\<rparr>
      else s)"
  using assms
  by (simp add: crossover_step_fl_def aligned_def nrows_def py_div_fl_def)

lemma equity_trade_fl_cases:
  assumes "p \<noteq> 0"
  shows "equity_trade_fl rnd (real_of_int sg) p e = Inr
     (if sg = 1 \<and> \<not> eq_in_market e then e\<lparr>eq_shares := rnd (current_value e / p), eq_in_market := True\<rparr>
      else if sg = - 1 \<and> eq_in_market e then
        e\<lparr>current_value := rnd (eq_shares e * p), eq_shares := 0, eq_in_market := False\<rparr>
      else e)"
  using assms by (simp add: equity_trade_fl_def py_div_fl_def)

lemma equity_step_fl_cases:
  assumes "aligned d" "Suc m < nrows d" "Close d ! m \<noteq> 0"
  shows "equity_step_fl rnd d (Suc m) e =
     and_then (equity_trade_fl rnd (real_of_int (Signal d ! m)) (Close d ! m) e) (\<lambda>s'.
       Inr (s'\<lparr>ma_values := (ma_values s')
              [Suc m := Some (if eq_in_market s' then rnd (eq_shares s' * Close d ! Suc m)
                          else current_value s')]\<rparr>))"
proof -
  have len: "Suc m < length (Close d)" "Suc m < length (Signal d)"
    using assms by (simp_all add: nrows_def aligned_def)
  have sg: "cell (map real_of_int (Signal d)) (int (Suc m) - 1) = Inr (real_of_int (Signal d ! m))"
    using len by simp
  have pc: "cell (Close d) (int (Suc m) - 1) = Inr (Close d ! m)"
    using len by simp
  have cc: "cell (Close d) (int (Suc m)) = Inr (Close d ! Suc m)"
    using len by (intro cell_in_range)
  show ?thesis unfolding equity_step_fl_def sg pc cc by simp
qed

lemma step_follows:
  assumes al: "aligned d" and sk: "sign_keeping rnd" and pos: "\<forall>c\<in>set (Close d). 0 < c"
    and m: "Suc m < nrows d" and fo: "follows rnd d m s e"
  shows "\<exists>s' e'. crossover_step_fl rnd d m s = Inr s' \<and> equity_step_fl rnd d (Suc m) e = Inr e'
           \<and> follows rnd d (Suc m) s' e'"
proof -
  have p: "0 < Close d ! m" "0 < Close d ! Suc m"
    using closes_positive_nth[OF pos] m by simp_all
  note f = followsD[OF fo]
  have c: "0 \<le> rnd (cash s / Close d ! m)" "0 \<le> rnd (shares s * Close d ! m)"
    using f(5,6) p(1) by (simp_all add: sign_keepingD(2)[OF sk])
  have l: "Suc m < length (ma_values e)" using f(7) m by simp
  have cs: "crossover_step_fl rnd d m s = Inr
     (if Signal d ! m = 1 \<and> \<not> in_market s then
        \<lparr>cash = 0, shares = rnd (cash s / Close d ! m), in_market = True,
         transactions = transactions s @
           [\<lparr>tx_date = m, tx_action = BUY, tx_price = Close d ! m,
             tx_shares = rnd (cash s / Close d ! m),
             tx_value = rnd (rnd (cash s / Close d ! m) * Close d ! m)\<rparr>]\<rparr>
      else if Signal d ! m = - 1 \<and> in_market s then
        \<lparr>cash = rnd (shares s * Close d ! m), shares = 0, in_market = False,
         transactions = transactions s @
           [\<lparr>tx_date = m, tx_action = SELL, tx_price = Close d ! m, tx_shares = 0,
             tx_value = rnd (shares s * Close d ! m)\<rparr>]\<rparr>
      else s)"
    using al m p(1) by (intro crossover_step_fl_cases) simp_all
  have es: "equity_step_fl rnd d (Suc m) e =
     and_then (equity_trade_fl rnd (real_of_int (Signal d ! m)) (Close d ! m) e) (\<lambda>s'.
       Inr (s'\<lparr>ma_values := (ma_values s')
              [Suc m := Some (if eq_in_market s' then rnd (eq_shares s' * Close d ! Suc m)
                          else current_value s')]\<rparr>))"
    using al m p(1) by (intro equity_step_fl_cases) simp_all
  have et: "equity_trade_fl rnd (real_of_int (Signal d ! m)) (Close d ! m) e = Inr
     (if Signal d ! m = 1 \<and> \<not> eq_in_market e then
        e\<lparr>eq_shares := rnd (current_value e / Close d ! m), eq_in_market := True\<rparr>
      else if Signal d ! m = - 1 \<and> eq_in_market e then
        e\<lparr>current_value := rnd (eq_shares e * Close d ! m), eq_shares := 0, eq_in_market := False\<rparr>
      else e)"
    using p(1) by (intro equity_trade_fl_cases) simp
  consider (buy) "Signal d ! m = 1 \<and> \<not> in_market s"
    | (sell) "\<not> (Signal d ! m = 1 \<and> \<not> in_market s)" "Signal d ! m = - 1 \<and> in_market s"
    | (hold) "\<not> (Signal d ! m = 1 \<and> \<not> in_market s)" "\<not> (Signal d ! m = - 1 \<and> in_market s)"
    by blast
  then show ?thesis
  proof cases
    case buy
    then show ?thesis
      unfolding cs es et using f c l
      by (simp add: follows_def)
  next
    case sell
    then show ?thesis
      unfolding cs es et using f c l
      by (simp add: follows_def)
  next
    case hold
    then show ?thesis
      unfolding cs es et using f c l
      by (auto simp: follows_def)
  qed
qed

lemma runs_follow:
  assumes al: "aligned d" and sk: "sign_keeping rnd" and pos: "\<forall>c\<in>set (Close d). 0 < c"
    and m: "200 \<le> m" "m < nrows d"
  shows "\<exists>s e. crossover_loop_fl rnd d m = Inr s \<and> equity_loop_fl rnd d (Suc m) = Inr e
           \<and> follows rnd d m s e"
  using m
proof (induction m rule: dec_induct)
  case base
  have "follows rnd d 200 initial_position (initial_equity (nrows d))"
    using base by (simp add: follows_def initial_position_def initial_equity_def)
  then show ?case by (simp add: crossover_loop_fl_def equity_loop_fl_def)
next
  case (step m)
  then obtain s e where se: "crossover_loop_fl rnd d m = Inr s"
    "equity_loop_fl rnd d (Suc m) = Inr e" "follows rnd d m s e" by auto
  from step_follows[OF al sk pos step.prems se(3)]
  obtain s' e' where "crossover_step_fl rnd d m s = Inr s'"
    "equity_step_fl rnd d (Suc m) e = Inr e'" "follows rnd d (Suc m) s' e'" by blast
  then show ?case using se(1,2) step.hyps(1)
    by (simp add: crossover_loop_fl_Suc equity_loop_fl_Suc)
qed

lemma last_step_values:
  assumes sk: "sign_keeping rnd" and p: "0 < p"
    and inv: "if in_market s then cash s = 0 else shares s = 0" "0 \<le> cash s" "0 \<le> shares s"
  shows "final_value_of_fl rnd
           (if sg = 1 \<and> \<not> in_market s then
              \<lparr>cash = 0, shares = rnd (cash s / p), in_market = True, transactions = t1\<rparr>
            else if sg = - 1 \<and> in_market s then
              \<lparr>cash = rnd (shares s * p), shares = 0, in_market = False, transactions = t2\<rparr>
            else s) p
       = (if (sg::int) = 1 \<and> \<not> in_market s then rnd (rnd (cash s / p) * p)
          else if in_market s then rnd (shares s * p) else cash s)"
proof -
  have z: "rnd 0 = 0" using sk by (rule sign_keepingD(1))
  have n: "0 \<le> rnd (shares s * p)" using inv(3) p by (simp add: sign_keepingD(2)[OF sk])
  consider (buy) "sg = 1 \<and> \<not> in_market s"
    | (sell) "\<not> (sg = 1 \<and> \<not> in_market s)" "sg = - 1 \<and> in_market s"
    | (hold) "\<not> (sg = 1 \<and> \<not> in_market s)" "\<not> (sg = - 1 \<and> in_market s)"
    by blast
  then show ?thesis
  proof cases
    case buy
    then show ?thesis by (simp add: final_value_of_fl_def)
  next
    case sell
    then show ?thesis using n z by (auto simp: final_value_of_fl_def)
  next
    case hold
    then show ?thesis using inv z by (auto simp: final_value_of_fl_def)
  qed
qed

lemma rounded_end_values:
  assumes "aligned d" and "200 < nrows d" and "\<forall>c\<in>set (Close d). 0 < c" and "sign_keeping rnd"
  shows "\<exists>r f s. ma_crossover_strategy_fl rnd d = Inr r
           \<and> prepare_strategy_data_fl rnd d bh = Inr f
           \<and> crossover_loop_fl rnd d (nrows d - 1) = Inr s
           \<and> length (MA_Value f) = nrows d
           \<and> (if Signal d ! (nrows d - 1) = 1 \<and> \<not> in_market s
              then MA_Value f ! (nrows d - 1) = Some (cash s)
                 \<and> ma_final_value r = rnd (rnd (cash s / last (Close d)) * last (Close d))
              else MA_Value f ! (nrows d - 1) = Some (ma_final_value r))"
proof -
  define n where "n = nrows d - 1"
  have n: "200 \<le> n" "n < nrows d" "Suc n = nrows d" using assms(2) by (simp_all add: n_def)
  from runs_follow[OF assms(1,4,3) n(1,2)] obtain s e
    where s: "crossover_loop_fl rnd d n = Inr s" and e: "equity_loop_fl rnd d (nrows d) = Inr e"
      and fo: "follows rnd d n s e"
    by (auto simp: n(3))
  note f = followsD[OF fo]
  have ne: "Close d \<noteq> []" using assms(2) by (auto simp: nrows_def)
  have l: "last (Close d) = Close d ! n"
    using ne by (simp add: last_conv_nth nrows_def n_def)
  have p: "0 < Close d ! n" using closes_positive_nth[OF assms(3) n(2)] .
  define s' where "s' =
     (if Signal d ! n = 1 \<and> \<not> in_market s then
        \<lparr>cash = 0, shares = rnd (cash s / Close d ! n), in_market = True,
         transactions = transactions s @
           [\<lparr>tx_date = n, tx_action = BUY, tx_price = Close d ! n,
             tx_shares = rnd (cash s / Close d ! n),
             tx_value = rnd (rnd (cash s / Close d ! n) * Close d ! n)\<rparr>]\<rparr>
      else if Signal d ! n = - 1 \<and> in_market s then
        \<lparr>cash = rnd (shares s * Close d ! n), shares = 0, in_market = False,
         transactions = transactions s @
           [\<lparr>tx_date = n, tx_action = SELL, tx_price = Close d ! n, tx_shares = 0,
             tx_value = rnd (shares s * Close d ! n)\<rparr>]\<rparr>
      else s)"
  have "crossover_step_fl rnd d n s = Inr s'"
    unfolding s'_def using assms(1) n(2) p by (intro crossover_step_fl_cases) simp_all
  then have loop: "crossover_loop_fl rnd d (nrows d) = Inr s'"
    using crossover_loop_fl_Suc[OF n(1), of rnd d] s by (simp add: n(3))
  have fv: "final_value_of_fl rnd s' (Close d ! n)
       = (if Signal d ! n = 1 \<and> \<not> in_market s then rnd (rnd (cash s / Close d ! n) * Close d ! n)
          else if in_market s then rnd (shares s * Close d ! n) else cash s)"
    unfolding s'_def using assms(4) p f(4,5,6) by (rule last_step_values)
  define r where "r = \<lparr>ma_initial_investment = 10000,
            ma_final_value = final_value_of_fl rnd s' (Close d ! n),
            ma_return_percentage =
              rnd (rnd (rnd (final_value_of_fl rnd s' (Close d ! n) - 10000) / 10000) * 100),
            ma_transactions = transactions s'\<rparr>"
  have ma: "ma_crossover_strategy_fl rnd d = Inr r"
    using ne by (simp add: ma_crossover_strategy_fl_def loop l r_def)
  define f' where "f' = d\<lparr>BH_Value := map (\<lambda>i. if i < 200 then None else Some (rnd (bh * Close d ! i)))
                               [0..<nrows d],
                  MA_Value := ma_values e\<rparr>"
  have pr: "prepare_strategy_data_fl rnd d bh = Inr f'"
    using assms(2) e by (simp add: prepare_strategy_data_fl_def bh_loop_fl iloc_numeral f'_def)
  have mv: "MA_Value f' ! n = Some (if in_market s then rnd (shares s * Close d ! n) else cash s)"
    "length (MA_Value f') = nrows d"
    using f(7,8) by (simp_all add: f'_def)
  have "if Signal d ! n = 1 \<and> \<not> in_market s
        then MA_Value f' ! n = Some (cash s)
           \<and> ma_final_value r = rnd (rnd (cash s / last (Close d)) * last (Close d))
        else MA_Value f' ! n = Some (ma_final_value r)"
    using mv(1) fv by (auto simp: r_def l)
  with ma pr s mv(2) show ?thesis unfolding n_def by blast
qed

lemma single_buy_fl:
  assumes "nrows d = 201" "length (Signal d) = 201" "Signal d ! 200 = 1" "Close d ! 200 \<noteq> 0"
  shows "crossover_loop_fl rnd d (nrows d) =
     Inr \<lparr>cash = 0, shares = rnd (10000 / Close d ! 200), in_market = True,
          transactions = [\<lparr>tx_date = 200, tx_action = BUY, tx_price = Close d ! 200,
             tx_shares = rnd (10000 / Close d ! 200),
             tx_value = rnd (rnd (10000 / Close d ! 200) * Close d ! 200)\<rparr>]\<rparr>"
proof -
  have "[200..<201] = [200::nat]" by (simp add: upt_rec)
  then show ?thesis using assms
    by (simp add: crossover_loop_fl_def crossover_step_fl_def nrows_def cell_numeral py_div_fl_def
        initial_position_def)
qed

lemma prepare_fl_201:
  assumes "nrows d = 201"
  shows "prepare_strategy_data_fl rnd d sh =
     Inr (d\<lparr>BH_Value := replicate 200 None @ [Some (rnd (sh * Close d ! 200))],
            MA_Value := replicate 200 None @ [Some 10000]\<rparr>)"
proof -
  have u: "[0..<201] = [0..<200] @ [200::nat]" by (simp add: upt_rec)
  have "map (\<lambda>i. if i < 200 then None else Some (rnd (sh * Close d ! i))) [0..<200]
      = map (\<lambda>i. None) [0..<200::nat]"
    by (rule map_cong) simp_all
  then have bh: "map (\<lambda>i. if i < 200 then None else Some (rnd (sh * Close d ! i))) [0..<201]
      = replicate 200 None @ [Some (rnd (sh * Close d ! 200))]"
    unfolding u by (simp add: map_replicate_const)
  have "(replicate 201 None)[200 := Some 10000] = replicate 200 None @ [Some (10000::real)]"
    using replicate_update_last[of 200 "None" "Some (10000::real)"] by simp
  then have ma: "ma_values (initial_equity 201) = replicate 200 None @ [Some 10000]"
    by (simp add: initial_equity_def)
  have "for_each (bh_step_fl rnd d sh) [0..<nrows d] [] =
     Inr (map (\<lambda>i. if i < 200 then None else Some (rnd (sh * Close d ! i))) [0..<nrows d])"
    by (rule bh_loop_fl) simp
  then show ?thesis using assms bh ma
    by (simp add: prepare_strategy_data_fl_def iloc_numeral equity_loop_fl_def)
qed

lemma rounding_signal: "Signal rounding_frame ! 200 = 1"
  by (simp add: rounding_frame_def pipeline_signal shift1_nth rolling_mean_length step_prices_ma)

lemma rounding_props:
  "aligned rounding_frame" "nrows rounding_frame = 201" "length (Signal rounding_frame) = 201"
  "Close rounding_frame = replicate 200 1 @ [139]"
  by (simp_all add: rounding_frame_def pipeline_cols)

text \<open>
  C2 as stated fails on 200 closes of 1 followed by a close of 139, in the arithmetic of
  binary64 floats: the Buy signal of the last index is executed by
  \<^verbatim>\<open>ma_crossover_strategy\<close> only, whose final value is 10000 / 139 * 139 rounded twice,
  that is 10000 - 2^-39 (printed 9999.999999999998), while the last entry of
  \<^verbatim>\<open>MA_Value\<close> is 10000.
\<close>

theorem rounding_counterexample:
  "aligned rounding_frame \<and> nrows rounding_frame = 201
   \<and> list_all (\<lambda>c. 0 < c) (Close rounding_frame)
   \<and> (\<exists>r f. ma_crossover_strategy_fl double_round rounding_frame = Inr r
        \<and> prepare_strategy_data_fl double_round rounding_frame (5062499581126906 / 2 ^ 46) = Inr f
        \<and> ma_final_value r = 10000 - 1 / 2 ^ 39
        \<and> MA_Value f ! (nrows rounding_frame - 1) = Some 10000)"
proof -
  have c: "Close rounding_frame ! 200 = 139" "last (Close rounding_frame) = 139"
    by (simp_all add: rounding_props nth_append)
  have "crossover_loop_fl double_round rounding_frame (nrows rounding_frame) =
     Inr \<lparr>cash = 0, shares = 5062499581126906 / 2 ^ 46, in_market = True,
          transactions = [\<lparr>tx_date = 200, tx_action = BUY, tx_price = 139,
             tx_shares = 5062499581126906 / 2 ^ 46, tx_value = 10000 - 1 / 2 ^ 39\<rparr>]\<rparr>"
    using single_buy_fl[OF rounding_props(2,3) rounding_signal, of double_round]
    by (simp only: c double_round_quotient double_round_product)
  then have ma: "\<exists>r. ma_crossover_strategy_fl double_round rounding_frame = Inr r
        \<and> ma_final_value r = 10000 - 1 / 2 ^ 39"
    using double_round_product
    by (simp add: ma_crossover_strategy_fl_def final_value_of_fl_def rounding_props(4))
  have "\<exists>f. prepare_strategy_data_fl double_round rounding_frame (5062499581126906 / 2 ^ 46) = Inr f
        \<and> MA_Value f ! 200 = Some 10000"
    by (simp add: prepare_fl_201[OF rounding_props(2)] nth_append)
  with ma show ?thesis
    by (auto simp: rounding_props list_all_iff)
qed

text \<open>
  C2 (amended): on a frame of more than 200 rows with all closes positive, and for every
  rounding of the float operations that keeps zero and the sign of non-negative numbers,
  both implementations return, and the last entry of the \<^verbatim>\<open>MA_Value\<close> column is the
  \<^verbatim>\<open>final_value\<close> of \<^verbatim>\<open>ma_crossover_strategy\<close>, unless the last index carries a Buy
  signal while the strategy is out of the market. In that case the last entry of
  \<^verbatim>\<open>MA_Value\<close> is the cash \<open>c\<close> held before that index and the final value is the
  rounded product of the rounded quotient \<open>c / close\<close> and the close. In exact
  arithmetic the two values are equal in every case.
\<close>

theorem end_values_up_to_last_buy:
  assumes "aligned d" and "200 < nrows d" and "\<forall>c\<in>set (Close d). 0 < c" and "sign_keeping rnd"
  shows "(\<exists>r f s. ma_crossover_strategy_fl rnd d = Inr r
           \<and> prepare_strategy_data_fl rnd d bh = Inr f
           \<and> crossover_loop_fl rnd d (nrows d - 1) = Inr s
           \<and> length (MA_Value f) = nrows d
           \<and> (if Signal d ! (nrows d - 1) = 1 \<and> \<not> in_market s
              then MA_Value f ! (nrows d - 1) = Some (cash s)
                 \<and> ma_final_value r = rnd (rnd (cash s / last (Close d)) * last (Close d))
              else MA_Value f ! (nrows d - 1) = Some (ma_final_value r)))
       \<and> (\<exists>r f. ma_crossover_strategy_fl (\<lambda>x. x) d = Inr r
           \<and> prepare_strategy_data_fl (\<lambda>x. x) d bh = Inr f
           \<and> MA_Value f ! (nrows d - 1) = Some (ma_final_value r))"
proof
  show "\<exists>r f s. ma_crossover_strategy_fl rnd d = Inr r
           \<and> prepare_strategy_data_fl rnd d bh = Inr f
           \<and> crossover_loop_fl rnd d (nrows d - 1) = Inr s
           \<and> length (MA_Value f) = nrows d
           \<and> (if Signal d ! (nrows d - 1) = 1 \<and> \<not> in_market s
              then MA_Value f ! (nrows d - 1) = Some (cash s)
                 \<and> ma_final_value r = rnd (rnd (cash s / last (Close d)) * last (Close d))
              else MA_Value f ! (nrows d - 1) = Some (ma_final_value r))"
    using assms by (rule rounded_end_values)
  show "\<exists>r f. ma_crossover_strategy_fl (\<lambda>x. x) d = Inr r
           \<and> prepare_strategy_data_fl (\<lambda>x. x) d bh = Inr f
           \<and> MA_Value f ! (nrows d - 1) = Some (ma_final_value r)"
    using exact_end_values_agree[OF assms(1,2,3), of bh]
    by (simp add: ma_crossover_strategy_exact prepare_strategy_data_exact) blast
qed

text \<open>C2 (amended) with the rounding of binary64: a frame with a Buy at index 200 and a
  Sell at the last index 201, and a frame with a Buy at the last index 200.\<close>

theorem end_values_up_to_last_buy_witness:
  "(\<exists>r f. ma_crossover_strategy_fl double_round round_trip_frame = Inr r
      \<and> prepare_strategy_data_fl double_round round_trip_frame 5000 = Inr f
      \<and> MA_Value f ! 201 = Some (ma_final_value r))
   \<and> (\<exists>r f. ma_crossover_strategy_fl double_round rounding_frame = Inr r
      \<and> prepare_strategy_data_fl double_round rounding_frame 1 = Inr f
      \<and> MA_Value f ! 200 = Some 10000
      \<and> ma_final_value r = double_round (double_round (10000 / 139) * 139))"
proof -
  have n: "200 < nrows round_trip_frame" "nrows round_trip_frame - 1 = 201"
    "Signal round_trip_frame ! 201 = - 1"
    by (simp_all add: round_trip_props) (simp add: round_trip_frame_def nth_append)
  have 1: "\<exists>r f. ma_crossover_strategy_fl double_round round_trip_frame = Inr r
      \<and> prepare_strategy_data_fl double_round round_trip_frame 5000 = Inr f
      \<and> MA_Value f ! 201 = Some (ma_final_value r)"
    using end_values_up_to_last_buy
      [OF round_trip_props(1) n(1) round_trip_props(3) double_round_sign_keeping, of 5000] n(2,3)
    by auto
  have m: "200 < nrows rounding_frame" "nrows rounding_frame - 1 = 200"
    "\<forall>c\<in>set (Close rounding_frame). 0 < c" "last (Close rounding_frame) = 139"
    "crossover_loop_fl double_round rounding_frame 200 = Inr initial_position"
    by (auto simp: rounding_props crossover_loop_fl_def)
  have 2: "\<exists>r f. ma_crossover_strategy_fl double_round rounding_frame = Inr r
      \<and> prepare_strategy_data_fl double_round rounding_frame 1 = Inr f
      \<and> MA_Value f ! 200 = Some 10000
      \<and> ma_final_value r = double_round (double_round (10000 / 139) * 139)"
    using end_values_up_to_last_buy
      [OF rounding_props(1) m(1,3) double_round_sign_keeping, of 1] m(2,4,5) rounding_signal
    by (auto simp: initial_position_def)
  from 1 2 show ?thesis by blast
qed

subsection \<open>The scan of the crossover strategy\<close>

lemma spec_act_log:
  "\<exists>extra. transactions (spec_act d i s) = transactions s @ extra \<and> length extra \<le> 1
     \<and> (\<forall>t\<in>set extra. tx_date t = i - 1)"
  by (simp add: spec_act_def)

text \<open>
  C1 as stated fails on 200 closes of 1 followed by a close of 2: the averages cross
  upwards at index 200, the last index, and \<^verbatim>\<open>ma_crossover_strategy\<close> logs a Buy
  dated 200, while the scan from one past the warm-up boundary (index 201) to the last
  index (200) is empty and logs nothing.
\<close>

theorem last_index_trade_counterexample:
  "aligned crossing_frame \<and> nrows crossing_frame = 201
   \<and> list_all (\<lambda>c. 0 < c) (Close crossing_frame)
   \<and> ma_crossover_strategy crossing_frame =
       Inr \<lparr>ma_initial_investment = 10000, ma_final_value = 10000, ma_return_percentage = 0,
            ma_transactions = [\<lparr>tx_date = 200, tx_action = BUY, tx_price = 2, tx_shares = 5000,
               tx_value = 10000\<rparr>]\<rparr>
   \<and> transactions (spec_scan crossing_frame [201..<nrows crossing_frame]) = []"
  by (simp add: crossing_props crossing_run spec_scan_Nil initial_position_def list_all_iff)

text \<open>
  C1 (amended): on a frame of more than 200 rows with all closes positive,
  \<^verbatim>\<open>ma_crossover_strategy\<close> acts on the signal of every index \<open>j\<close> from 200 up to and
  including the last one, trading at the close of \<open>j\<close> and logging a transaction dated
  \<open>j\<close>: its state after index \<open>m - 1\<close> is that of the specification's scan (at
  \<open>i\<close> act on signal and close of \<open>i - 1\<close>) run over \<open>i = 201, \<dots>, m\<close>, for every
  \<open>m\<close> up to the number of rows, so one step beyond the last index. Its log is the log
  of the scan over the indices \<open>201, \<dots>\<close>, last, followed by at most one more
  transaction, dated at the last index. The equity curve of
  \<^verbatim>\<open>prepare_strategy_data\<close> follows the scan over the indices proper: its value at
  \<open>i > 200\<close> is the equity, marked at the close of \<open>i\<close>, of the scan through \<open>i\<close>.
\<close>

theorem crossover_scans_through_last_index:
  assumes "aligned d" and "200 < nrows d" and "\<forall>c\<in>set (Close d). 0 < c"
  shows "(\<forall>m\<le>nrows d. crossover_loop d m = Inr (spec_scan d [201..<Suc m]))
       \<and> (\<exists>r. ma_crossover_strategy d = Inr r
             \<and> ma_transactions r = transactions (spec_scan d [201..<Suc (nrows d)]))
       \<and> (\<exists>extra. transactions (spec_scan d [201..<Suc (nrows d)])
                      = transactions (spec_scan d [201..<nrows d]) @ extra
             \<and> length extra \<le> 1 \<and> (\<forall>t\<in>set extra. tx_date t = nrows d - 1))
       \<and> (\<exists>f. prepare_strategy_data d bh = Inr f
             \<and> (\<forall>i. 200 < i \<and> i < nrows d \<longrightarrow>
                   MA_Value f ! i = Some (equity (spec_scan d [201..<Suc i]) (Close d ! i))))"
proof (intro conjI)
  have nz: "\<forall>i<nrows d. Close d ! i \<noteq> 0"
    using closes_positive_nth[OF assms(3)] by fastforce
  show "\<forall>m\<le>nrows d. crossover_loop d m = Inr (spec_scan d [201..<Suc m])"
    using crossover_loop_spec[OF assms(1) nz] by blast
  have "0 < nrows d" using assms(2) by simp
  from ma_crossover_spec[OF assms(1,3) this]
  show "\<exists>r. ma_crossover_strategy d = Inr r
             \<and> ma_transactions r = transactions (spec_scan d [201..<Suc (nrows d)])"
    by simp
  have "[201..<Suc (nrows d)] = [201..<nrows d] @ [nrows d]" using assms(2) by simp
  then have "spec_scan d [201..<Suc (nrows d)] = spec_act d (nrows d) (spec_scan d [201..<nrows d])"
    by (simp only: spec_scan_snoc)
  then show "\<exists>extra. transactions (spec_scan d [201..<Suc (nrows d)])
                      = transactions (spec_scan d [201..<nrows d]) @ extra
             \<and> length extra \<le> 1 \<and> (\<forall>t\<in>set extra. tx_date t = nrows d - 1)"
    using spec_act_log[of d "nrows d" "spec_scan d [201..<nrows d]"] by simp
  from prepare_spec[OF assms(1,3,2), of bh] obtain e f
    where f: "prepare_strategy_data d bh = Inr f" "MA_Value f = ma_values e"
      and tr: "tracks d (nrows d - 1) e"
    by force
  have "MA_Value f ! i = Some (equity (spec_scan d [201..<Suc i]) (Close d ! i))"
    if "200 < i \<and> i < nrows d" for i
  proof -
    have "i \<le> nrows d - 1" using that by linarith
    then show ?thesis using tracksD(5)[OF tr, of i] that f(2) by simp
  qed
  with f(1) show "\<exists>f. prepare_strategy_data d bh = Inr f
             \<and> (\<forall>i. 200 < i \<and> i < nrows d \<longrightarrow>
                   MA_Value f ! i = Some (equity (spec_scan d [201..<Suc i]) (Close d ! i)))"
    by blast
qed

text \<open>The amended statement C1 at the same frame.\<close>

theorem crossover_scans_through_last_index_witness:
  "crossover_loop crossing_frame 201 = Inr (spec_scan crossing_frame [201])
   \<and> map tx_date (transactions (spec_scan crossing_frame [201])) = [200]"
proof -
  have p: "\<forall>c\<in>set (Close crossing_frame). 0 < c" by (auto simp: crossing_props)
  have n: "200 < nrows crossing_frame" by (simp add: crossing_props)
  have e: "[201..<Suc 201] = [201]" by simp
  from crossover_scans_through_last_index[OF crossing_props(1) n p, of 0]
  have a: "\<forall>m\<le>nrows crossing_frame. crossover_loop crossing_frame m = Inr (spec_scan crossing_frame [201..<Suc m])"
    and b: "\<exists>r. ma_crossover_strategy crossing_frame = Inr r
             \<and> ma_transactions r = transactions (spec_scan crossing_frame [201..<Suc (nrows crossing_frame)])"
    by blast+
  have "crossover_loop crossing_frame 201 = Inr (spec_scan crossing_frame [201..<Suc 201])"
    using a by (simp add: crossing_props del: upt_Suc)
  then have 1: "crossover_loop crossing_frame 201 = Inr (spec_scan crossing_frame [201])"
    by (simp only: e)
  from b obtain r where r: "ma_crossover_strategy crossing_frame = Inr r"
    "ma_transactions r = transactions (spec_scan crossing_frame [201..<Suc 201])"
    by (auto simp: crossing_props simp del: upt_Suc)
  have "map tx_date (ma_transactions r) = [200]" using r(1) crossing_run by auto
  then have "map tx_date (transactions (spec_scan crossing_frame [201])) = [200]"
    by (simp only: r(2) e)
  with 1 show ?thesis by simp
qed

subsection \<open>The warm-up boundary and short series\<close>

text \<open>C3 as stated fails on 200 closes of 1: buy and hold does not enter the market, it
  raises IndexError, and no equity curve is produced.\<close>

theorem length_200_counterexample:
  "nrows short_frame = 200 \<and> buy_and_hold short_frame = Inl IndexError
   \<and> prepare_strategy_data short_frame 1 = Inl IndexError"
  by (simp add: short_props buy_and_hold_short prepare_short)

text \<open>
  C3 (amended): the warm-up boundary of the code is index 200. On a frame of exactly 200
  rows it lies one past the last index: \<^verbatim>\<open>buy_and_hold\<close> and
  \<^verbatim>\<open>prepare_strategy_data\<close> raise IndexError, while the crossover strategy never
  trades, its log is empty and its final value is the initial capital. On a frame of
  exactly 201 rows the boundary is the last index: buy and hold invests the full
  capital at that day's close, and each equity curve is defined at exactly that one
  point.
\<close>

theorem boundary_index_200:
  "(nrows d = 200 \<longrightarrow>
      buy_and_hold d = Inl IndexError \<and> prepare_strategy_data d sh = Inl IndexError
      \<and> crossover_loop d (nrows d) = Inr initial_position
      \<and> ma_crossover_strategy d =
          Inr \<lparr>ma_initial_investment = 10000, ma_final_value = 10000,
               ma_return_percentage = 0, ma_transactions = []\<rparr>)
   \<and> (nrows d = 201 \<and> Close d ! 200 \<noteq> 0 \<longrightarrow>
       buy_and_hold d =
         Inr \<lparr>bh_initial_investment = 10000, bh_final_value = 10000 / Close d ! 200 * Close d ! 200,
              bh_return_percentage = (10000 / Close d ! 200 * Close d ! 200 - 10000) / 10000 * 100,
              bh_shares = 10000 / Close d ! 200\<rparr>
       \<and> prepare_strategy_data d sh =
           Inr (d\<lparr>BH_Value := replicate 200 None @ [Some (sh * Close d ! 200)],
                  MA_Value := replicate 200 None @ [Some 10000]\<rparr>))"
proof (intro conjI impI)
  assume n: "nrows d = 200"
  show "buy_and_hold d = Inl IndexError" using n by (simp add: buy_and_hold_short)
  show "prepare_strategy_data d sh = Inl IndexError" using n by (simp add: prepare_short)
  show "crossover_loop d (nrows d) = Inr initial_position" using n by (simp add: crossover_loop_short)
  have "Close d \<noteq> []" using n by (auto simp: nrows_def)
  then show "ma_crossover_strategy d =
          Inr \<lparr>ma_initial_investment = 10000, ma_final_value = 10000,
               ma_return_percentage = 0, ma_transactions = []\<rparr>"
    using n by (simp add: ma_crossover_short)
next
  assume a: "nrows d = 201 \<and> Close d ! 200 \<noteq> 0"
  then have "Close d \<noteq> []" by (auto simp: nrows_def)
  then have "last (Close d) = Close d ! 200" using a by (simp add: last_conv_nth nrows_def)
  then show "buy_and_hold d =
         Inr \<lparr>bh_initial_investment = 10000, bh_final_value = 10000 / Close d ! 200 * Close d ! 200,
              bh_return_percentage = (10000 / Close d ! 200 * Close d ! 200 - 10000) / 10000 * 100,
              bh_shares = 10000 / Close d ! 200\<rparr>"
    using a buy_and_hold_ok[of d] by simp
  show "prepare_strategy_data d sh =
           Inr (d\<lparr>BH_Value := replicate 200 None @ [Some (sh * Close d ! 200)],
                  MA_Value := replicate 200 None @ [Some 10000]\<rparr>)"
    using a by (simp add: prepare_201)
qed

text \<open>The amended statement C3 at a frame of 200 rows and at one of 201 rows.\<close>

theorem boundary_index_200_witness:
  "buy_and_hold short_frame = Inl IndexError
   \<and> ma_crossover_strategy short_frame =
          Inr \<lparr>ma_initial_investment = 10000, ma_final_value = 10000,
               ma_return_percentage = 0, ma_transactions = []\<rparr>
   \<and> buy_and_hold crossing_frame =
         Inr \<lparr>bh_initial_investment = 10000, bh_final_value = 10000,
              bh_return_percentage = 0, bh_shares = 5000\<rparr>
   \<and> BH_Value (projr (prepare_strategy_data crossing_frame 5000))
        = replicate 200 None @ [Some 10000]"
proof -
  have c: "Close crossing_frame ! 200 = 2" by (simp add: crossing_props nth_append)
  show ?thesis
    using boundary_index_200[of short_frame 1] boundary_index_200[of crossing_frame 5000] short_props(1) crossing_props(2) c
    by simp
qed

text \<open>C4 as stated fails on the three closes 1, 2, 3: the simulation does not succeed,
  buy and hold and the equity curves raise IndexError.\<close>

theorem short_series_counterexample:
  "nrows tiny_frame = 3 \<and> buy_and_hold tiny_frame = Inl IndexError
   \<and> prepare_strategy_data tiny_frame 1 = Inl IndexError"
  by (simp add: tiny_props buy_and_hold_short prepare_short)

text \<open>
  C4 (amended): on a frame of fewer than 200 rows \<^verbatim>\<open>buy_and_hold\<close> and
  \<^verbatim>\<open>prepare_strategy_data\<close> raise IndexError, so no equity curve is produced; the
  crossover loop executes no trade, and \<^verbatim>\<open>ma_crossover_strategy\<close> returns the
  initial capital with an empty log, except on the empty frame, where it raises
  IndexError too.
\<close>

theorem short_series_outcome:
  assumes "nrows d < 200"
  shows "buy_and_hold d = Inl IndexError \<and> prepare_strategy_data d sh = Inl IndexError
       \<and> crossover_loop d (nrows d) = Inr initial_position
       \<and> ma_crossover_strategy d =
           (if Close d = [] then Inl IndexError
            else Inr \<lparr>ma_initial_investment = 10000, ma_final_value = 10000,
                      ma_return_percentage = 0, ma_transactions = []\<rparr>)"
  using assms
  by (simp add: buy_and_hold_short prepare_short crossover_loop_short ma_crossover_short)

text \<open>The amended statement C4 at the same frame.\<close>

theorem short_series_outcome_witness:
  "buy_and_hold tiny_frame = Inl IndexError
   \<and> ma_crossover_strategy tiny_frame =
        Inr \<lparr>ma_initial_investment = 10000, ma_final_value = 10000,
             ma_return_percentage = 0, ma_transactions = []\<rparr>"
  using short_series_outcome[of tiny_frame 1] by (simp add: tiny_props)

subsection \<open>Non-positive prices\<close>

lemma spec_act_shares_nonneg:
  assumes "one_active s" "\<forall>t\<in>set (transactions s). 0 \<le> tx_shares t" "0 < Close d ! (i - 1)"
  shows "\<forall>t\<in>set (transactions (spec_act d i s)). 0 \<le> tx_shares t"
  using assms by (auto simp: spec_act_def one_active_def split: if_splits)

lemma spec_scan_shares_nonneg:
  "\<forall>i\<in>set is. 0 < Close d ! (i - 1) \<Longrightarrow>
     \<forall>t\<in>set (transactions (spec_scan d is)). 0 \<le> tx_shares t"
proof (induction "is" rule: rev_induct)
  case Nil
  show ?case by (simp add: spec_scan_Nil initial_position_def)
next
  case (snoc i "is")
  then have "one_active (spec_scan d is)" by (intro spec_scan_one_active) simp
  with snoc show ?case
    unfolding spec_scan_snoc by (intro spec_act_shares_nonneg) simp_all
qed

text \<open>C5 as stated fails on 200 closes of -2 followed by a close of -1: the averages
  cross upwards at index 200, the strategy buys at the close -1 and returns, without any
  error, a log holding -10000 shares.\<close>

theorem negative_shares_counterexample:
  "Close negative_frame ! 200 = - 1
   \<and> ma_crossover_strategy negative_frame =
     Inr \<lparr>ma_initial_investment = 10000, ma_final_value = 10000, ma_return_percentage = 0,
          ma_transactions = [\<lparr>tx_date = 200, tx_action = BUY, tx_price = - 1,
             tx_shares = - 10000, tx_value = 10000\<rparr>]\<rparr>"
  by (simp add: negative_run negative_props nth_append)

text \<open>
  C5 (amended): the code has no InvalidPriceError. With all closes positive the crossover
  strategy returns and every logged share count is non-negative. A Buy executed at a
  close of zero raises ZeroDivisionError; a Buy executed at a negative close raises
  nothing and yields the negative share count cash / close.
\<close>

theorem nonpositive_price_outcome:
  "(aligned d \<and> 0 < nrows d \<and> (\<forall>c\<in>set (Close d). 0 < c) \<longrightarrow>
      (\<exists>r. ma_crossover_strategy d = Inr r \<and> (\<forall>t\<in>set (ma_transactions r). 0 \<le> tx_shares t)))
   \<and> (aligned d \<and> i < nrows d \<and> Signal d ! i = 1 \<and> \<not> in_market s \<and> Close d ! i = 0 \<longrightarrow>
        crossover_step d i s = Inl ZeroDivisionError)
   \<and> (aligned d \<and> i < nrows d \<and> Signal d ! i = 1 \<and> \<not> in_market s \<and> Close d ! i < 0
        \<and> 0 < cash s \<longrightarrow>
        (\<exists>s'. crossover_step d i s = Inr s' \<and> shares s' < 0 \<and> shares s' = cash s / Close d ! i))"
proof (intro conjI impI)
  assume a: "aligned d \<and> 0 < nrows d \<and> (\<forall>c\<in>set (Close d). 0 < c)"
  have "\<forall>i\<in>set [201..<Suc (nrows d)]. 0 < Close d ! (i - 1)"
    using a closes_positive_nth[of d] by auto
  then have "\<forall>t\<in>set (transactions (spec_scan d [201..<Suc (nrows d)])). 0 \<le> tx_shares t"
    by (rule spec_scan_shares_nonneg)
  then show "\<exists>r. ma_crossover_strategy d = Inr r \<and> (\<forall>t\<in>set (ma_transactions r). 0 \<le> tx_shares t)"
    using ma_crossover_spec[of d] a by simp
next
  assume "aligned d \<and> i < nrows d \<and> Signal d ! i = 1 \<and> \<not> in_market s \<and> Close d ! i = 0"
  then show "crossover_step d i s = Inl ZeroDivisionError"
    by (simp add: crossover_step_def aligned_def nrows_def py_div_def)
next
  assume "aligned d \<and> i < nrows d \<and> Signal d ! i = 1 \<and> \<not> in_market s \<and> Close d ! i < 0
        \<and> 0 < cash s"
  then show "\<exists>s'. crossover_step d i s = Inr s' \<and> shares s' < 0 \<and> shares s' = cash s / Close d ! i"
    by (simp add: crossover_step_def aligned_def nrows_def py_div_def divide_pos_neg)
qed

text \<open>The amended statement C5: a frame with positive closes, a Buy at a close of zero,
  and a Buy at a negative close.\<close>

theorem nonpositive_price_outcome_witness:
  "(\<exists>r. ma_crossover_strategy round_trip_frame = Inr r \<and> list_all (\<lambda>t. 0 \<le> tx_shares t) (ma_transactions r))
   \<and> crossover_step zero_frame 200 initial_position = Inl ZeroDivisionError
   \<and> (\<exists>s'. crossover_step negative_frame 200 initial_position = Inr s' \<and> shares s' = - 10000)"
proof -
  have 1: "\<exists>r. ma_crossover_strategy round_trip_frame = Inr r \<and> (\<forall>t\<in>set (ma_transactions r). 0 \<le> tx_shares t)"
    using nonpositive_price_outcome[of round_trip_frame 0 initial_position] round_trip_props by simp
  have z: "aligned zero_frame" "200 < nrows zero_frame" "Signal zero_frame ! 200 = 1"
    "Close zero_frame ! 200 = 0" "\<not> in_market initial_position"
    by (simp_all add: zero_frame_def aligned_def nrows_def nth_append initial_position_def)
  have 2: "crossover_step zero_frame 200 initial_position = Inl ZeroDivisionError"
    using nonpositive_price_outcome[of zero_frame 200 initial_position] z by simp
  have n: "200 < nrows negative_frame" "Close negative_frame ! 200 = - 1"
    "0 < cash initial_position" "cash initial_position = 10000"
    by (simp_all add: negative_props nth_append initial_position_def)
  have 3: "\<exists>s'. crossover_step negative_frame 200 initial_position = Inr s' \<and> shares s' = - 10000"
    using nonpositive_price_outcome[of negative_frame 200 initial_position] n z(5) negative_props(1) negative_signal by auto
  from 1 2 3 show ?thesis by (auto simp: list_all_iff)
qed

end
